theory Spec2Isabelle
  imports Complex_Main "HOL-Library.Word" "HOL-Library.Log_Nat"
begin

unbundle bit_operations_syntax

section \<open>Buffers and the Node.js Buffer primitives used by the patcher\<close>

text \<open>
  A Node.js \<open>Buffer\<close> is a sequence of bytes. The primitives below follow the
  behaviour of the Buffer methods that \<open>patchHheaTable\<close> calls; every exception they
  can raise is a value of \<open>js_error\<close>.
\<close>

type_synonym byte = "8 word"
type_synonym buffer = "byte list"

datatype js_error = ValueOutOfRange | OffsetOutOfBounds

text \<open>\<open>buf.subarray(s, e)\<close>: both ends are clamped to the buffer, nothing is raised.\<close>

definition subarray :: "buffer \<Rightarrow> nat \<Rightarrow> nat \<Rightarrow> buffer" where
  "subarray buf s e = take (e - s) (drop s buf)"

text \<open>\<open>buf.readUInt32BE(off)\<close>: raises when one of the four bytes is outside the buffer.\<close>

definition readUInt32BE :: "buffer \<Rightarrow> nat \<Rightarrow> js_error + int" where
  "readUInt32BE buf off =
     (if off + 3 < length buf
      then Inr (uint (buf ! off) * 2 ^ 24 + uint (buf ! (off + 1)) * 2 ^ 16
                + uint (buf ! (off + 2)) * 2 ^ 8 + uint (buf ! (off + 3)))
      else Inl OffsetOutOfBounds)"

text \<open>
  \<open>buf.writeInt16BE(value, off)\<close>: the value is checked against the signed 16-bit
  range first (\<open>ValueOutOfRange\<close>), then the offset against the buffer: both
  \<open>buf[off]\<close> and \<open>buf[off + 1]\<close> must exist (\<open>OffsetOutOfBounds\<close>). Only then are
  the two bytes stored, \<open>buf[off] = value >>> 8\<close> and \<open>buf[off + 1] = value\<close>, each
  reduced modulo 256 by the byte array; \<open>>>>\<close> shifts the value taken modulo \<open>2^32\<close>.
\<close>

definition writeInt16BE :: "buffer \<Rightarrow> int \<Rightarrow> int \<Rightarrow> js_error + buffer" where
  "writeInt16BE buf v off =
     (if v > 32767 \<or> v < - 32768 then Inl ValueOutOfRange
      else if off < 0 \<or> \<not> off + 1 < int (length buf) then Inl OffsetOutOfBounds
      else Inr (buf[nat off := word_of_int (drop_bit 8 (take_bit 32 v)),
                    nat off + 1 := word_of_int v]))"

text \<open>\<open>Buffer.from('hhea')\<close>: the four ASCII bytes of the tag.\<close>

definition hheaTag :: buffer where
  "hheaTag = [0x68, 0x68, 0x65, 0x61]"

section \<open>The binary patcher\<close>

text \<open>
  The loop of \<open>patchHheaTable\<close>:
  \<^verbatim>\<open>for (let i = 12; i < buffer.length - 16; i += 16)\<close>. It yields the value of
  \<open>hheaOffset\<close> after the loop: the offset field of the first entry whose tag is
  \<open>hhea\<close>, or the initial \<open>-1\<close>.
\<close>

function scan_hhea :: "buffer \<Rightarrow> nat \<Rightarrow> js_error + int" where
  "scan_hhea buffer i =
     (if int i < int (length buffer) - 16
      then (if subarray buffer i (i + 4) = hheaTag
            then readUInt32BE buffer (i + 8)
            else scan_hhea buffer (i + 16))
      else Inr (- 1))"
  by pat_completeness auto
termination
  by (relation "measure (\<lambda>(buffer, i). length buffer - i)") auto

declare scan_hhea.simps [simp del]

text \<open>
  The same loop, instrumented: \<open>hhea_entry\<close> is the value of \<open>i\<close> at the \<open>break\<close>
  (the directory position of the matching entry), and \<open>examined\<close> lists every value of
  \<open>i\<close> for which the loop body ran, in order.
\<close>

function hhea_entry :: "buffer \<Rightarrow> nat \<Rightarrow> nat option" where
  "hhea_entry buffer i =
     (if int i < int (length buffer) - 16
      then (if subarray buffer i (i + 4) = hheaTag
            then Some i
            else hhea_entry buffer (i + 16))
      else None)"
  by pat_completeness auto
termination
  by (relation "measure (\<lambda>(buffer, i). length buffer - i)") auto

declare hhea_entry.simps [simp del]

function examined :: "buffer \<Rightarrow> nat \<Rightarrow> nat list" where
  "examined buffer i =
     (if int i < int (length buffer) - 16
      then (if subarray buffer i (i + 4) = hheaTag
            then [i]
            else i # examined buffer (i + 16))
      else [])"
  by pat_completeness auto
termination
  by (relation "measure (\<lambda>(buffer, i). length buffer - i)") auto

declare examined.simps [simp del]

datatype warning =
    NoOS2Table
  | NoHheaTable
  | HheaNotFoundForPatching
  | BinaryPatchingFailed js_error

text \<open>
  The body of the \<open>try\<close> block of \<open>patchHheaTable\<close>. \<open>Buffer.from(buffer)\<close> copies, so
  the writes go to \<open>patchedBuffer\<close> and the argument keeps its bytes.
\<close>

definition patch_try :: "buffer \<Rightarrow> int \<Rightarrow> int \<Rightarrow> int \<Rightarrow> js_error + (buffer \<times> warning list)" where
  "patch_try buffer ascent descent lineGap =
     (let patchedBuffer = buffer in
      case scan_hhea buffer 12 of
        Inl e \<Rightarrow> Inl e
      | Inr hheaOffset \<Rightarrow>
          if hheaOffset = - 1 then Inr (patchedBuffer, [HheaNotFoundForPatching])
          else
            (case writeInt16BE patchedBuffer ascent (hheaOffset + 4) of
               Inl e \<Rightarrow> Inl e
             | Inr b1 \<Rightarrow>
                 (case writeInt16BE b1 descent (hheaOffset + 6) of
                    Inl e \<Rightarrow> Inl e
                  | Inr b2 \<Rightarrow>
                      (case writeInt16BE b2 lineGap (hheaOffset + 8) of
                         Inl e \<Rightarrow> Inl e
                       | Inr b3 \<Rightarrow> Inr (b3, [])))))"

text \<open>
  \<open>patchHheaTable\<close>: the \<open>catch\<close> clause warns and returns the original buffer. The
  result is the returned buffer with the warnings written to the console.
\<close>

definition patchHheaTable :: "buffer \<Rightarrow> int \<Rightarrow> int \<Rightarrow> int \<Rightarrow> buffer \<times> warning list" where
  "patchHheaTable buffer ascent descent lineGap =
     (case patch_try buffer ascent descent lineGap of
        Inl e \<Rightarrow> (buffer, [BinaryPatchingFailed e])
      | Inr r \<Rightarrow> r)"

text \<open>
  Reading two bytes as a big-endian signed 16-bit integer, the encoding that the hhea
  table layout prescribes for ascender, descender and lineGap. It is used to state what
  the patcher wrote.
\<close>

definition int16_be :: "byte \<Rightarrow> byte \<Rightarrow> int" where
  "int16_be hi lo =
     (let u = 256 * uint hi + uint lo in if u < 32768 then u else u - 65536)"

definition int16_range :: "int \<Rightarrow> bool" where
  "int16_range v \<longleftrightarrow> - 32768 \<le> v \<and> v \<le> 32767"

section \<open>The font object and the structured edit\<close>

text \<open>
  The parsed font, as far as \<open>modifyFont\<close> touches it: \<open>font.unitsPerEm\<close> and the two
  metrics tables \<open>font.tables.os2\<close> and \<open>font.tables.hhea\<close>, either of which may be
  absent. \<open>fsSelection\<close> is the unsigned 16-bit flags field of the OS/2 table; on such
  a value the 32-bit \<open>|\<close> of JavaScript is the bitwise or of the 16 bits. The fields of
  hhea that the code reads through \<open>|| default\<close> may be missing (\<open>None\<close>).
\<close>

record os2_table =
  sTypoAscender :: int
  sTypoDescender :: int
  sTypoLineGap :: int
  usWinAscent :: int
  usWinDescent :: int
  fsSelection :: "16 word"

record hhea_table =
  version :: "int option"
  ascender :: int
  descender :: int
  lineGap :: int
  advanceWidthMax :: int
  minLeftSideBearing :: int
  minRightSideBearing :: int
  xMaxExtent :: int
  caretSlopeRise :: int
  caretSlopeRun :: int
  caretOffset :: int
  reserved1 :: "int option"
  reserved2 :: "int option"
  reserved3 :: "int option"
  reserved4 :: "int option"
  metricDataFormat :: "int option"
  numberOfHMetrics :: int

record font =
  unitsPerEm :: int
  os2 :: "os2_table option"
  hhea :: "hhea_table option"

text \<open>
  The command-line options \<open>options.ascent\<close>, \<open>options.descent\<close> and
  \<open>options.lineGap\<close>, as \<open>parseFloat\<close> returns them. A JavaScript number is an
  IEEE-754 double; a finite one is a rational number, and that is how it is kept here.
  NaN, the infinities and the sign of zero are left out.
\<close>

record options =
  opt_ascent :: rat
  opt_descent :: rat
  opt_lineGap :: rat

subsection \<open>Double-precision arithmetic\<close>

text \<open>
  \<open>pow2 e\<close> is \<open>2\<close> to the power \<open>e\<close>, and \<open>floor_log2 x\<close>, for a positive \<open>x\<close>, the
  exponent \<open>e\<close> with \<open>pow2 e \<le> x < pow2 (e + 1)\<close>: the bit lengths of numerator and
  denominator give it up to one, and a comparison decides.
\<close>

definition pow2 :: "int \<Rightarrow> rat" where
  "pow2 e = (if 0 \<le> e then 2 ^ nat e else 1 / 2 ^ nat (- e))"

definition floor_log2 :: "rat \<Rightarrow> int" where
  "floor_log2 x =
     (let (p, q) = quotient_of x; e = bitlen p - bitlen q
      in if pow2 e \<le> x then e else e - 1)"

text \<open>The nearest integer, a tie going to the even one.\<close>

definition round_ties_even :: "rat \<Rightarrow> int" where
  "round_ties_even y =
     (let f = \<lfloor>y\<rfloor>; r = y - of_int f
      in if r < 1 / 2 then f else if 1 / 2 < r then f + 1 else if even f then f else f + 1)"

text \<open>
  The double nearest to a rational, ties to even: a significand of 53 bits, and below
  \<open>2^-1022\<close> the fixed spacing \<open>2^-1074\<close> of the subnormal numbers. Overflow to
  Infinity (beyond \<open>2^1024\<close>) is not modelled.
\<close>

definition to_double :: "rat \<Rightarrow> rat" where
  "to_double x =
     (if x = 0 then 0
      else (let e = max (floor_log2 \<bar>x\<bar> - 52) (- 1074)
            in of_int (round_ties_even (x / pow2 e)) * pow2 e))"

text \<open>
  The operators \<open>*\<close> and \<open>/\<close> on numbers: the exact result, rounded to a double.
\<close>

definition js_mul :: "rat \<Rightarrow> rat \<Rightarrow> rat" where
  "js_mul x y = to_double (x * y)"

definition js_div :: "rat \<Rightarrow> rat \<Rightarrow> rat" where
  "js_div x y = to_double (x / y)"

text \<open>
  \<open>Math.round\<close>: the integer nearest to its argument, a tie going towards plus
  infinity. It is exact.
\<close>

definition js_round :: "rat \<Rightarrow> int" where
  "js_round x = \<lfloor>x + 1 / 2\<rfloor>"

subsection \<open>The edit\<close>

text \<open>\<open>x || dflt\<close> on a numeric field: a missing value and \<open>0\<close> are both falsy.\<close>

definition or_default :: "int option \<Rightarrow> int \<Rightarrow> int option" where
  "or_default x dflt =
     (case x of None \<Rightarrow> Some dflt | Some v \<Rightarrow> if v = 0 then Some dflt else Some v)"

text \<open>
  The new metrics, as \<open>modifyFont\<close> computes them:
  \<^verbatim>\<open>Math.round(unitsPerEm * (options.ascent / 100))\<close>,
  \<^verbatim>\<open>-Math.round(unitsPerEm * (options.descent / 100))\<close> and
  \<^verbatim>\<open>Math.round(options.lineGap)\<close>. The percentage is divided by 100 first, and the
  quotient, rounded to a double, is multiplied by \<open>unitsPerEm\<close>. No range check
  follows.
\<close>

definition newAscent :: "int \<Rightarrow> options \<Rightarrow> int" where
  "newAscent upm opts = js_round (js_mul (of_int upm) (js_div (opt_ascent opts) 100))"

definition newDescent :: "int \<Rightarrow> options \<Rightarrow> int" where
  "newDescent upm opts = - js_round (js_mul (of_int upm) (js_div (opt_descent opts) 100))"

definition newLineGap :: "options \<Rightarrow> int" where
  "newLineGap opts = js_round (opt_lineGap opts)"

text \<open>
  The block \<open>if (font.tables.os2) { ... } else { console.warn(...) }\<close>: the table is
  updated in place.
\<close>

definition modifyOS2 :: "font \<Rightarrow> int \<Rightarrow> int \<Rightarrow> int \<Rightarrow> font \<times> warning list" where
  "modifyOS2 fnt a d g =
     (case os2 fnt of
        Some t \<Rightarrow>
          (fnt\<lparr>os2 := Some (t\<lparr>sTypoAscender := a, sTypoDescender := d, sTypoLineGap := g,
                               usWinAscent := \<bar>a\<bar>, usWinDescent := \<bar>d\<bar>,
                               fsSelection := fsSelection t OR 0x80\<rparr>)\<rparr>, [])
      | None \<Rightarrow> (fnt, [NoOS2Table]))"

text \<open>
  The block \<open>if (font.tables.hhea) { ... } else { console.warn(...) }\<close>: the table is
  replaced by a new object built from the original one.
\<close>

definition modifyHhea :: "font \<Rightarrow> int \<Rightarrow> int \<Rightarrow> int \<Rightarrow> font \<times> warning list" where
  "modifyHhea fnt a d g =
     (case hhea fnt of
        Some originalHhea \<Rightarrow>
          (fnt\<lparr>hhea := Some
             \<lparr>version = or_default (version originalHhea) 0x00010000,
              ascender = a,
              descender = d,
              lineGap = g,
              advanceWidthMax = advanceWidthMax originalHhea,
              minLeftSideBearing = minLeftSideBearing originalHhea,
              minRightSideBearing = minRightSideBearing originalHhea,
              xMaxExtent = xMaxExtent originalHhea,
              caretSlopeRise = caretSlopeRise originalHhea,
              caretSlopeRun = caretSlopeRun originalHhea,
              caretOffset = caretOffset originalHhea,
              reserved1 = or_default (reserved1 originalHhea) 0,
              reserved2 = or_default (reserved2 originalHhea) 0,
              reserved3 = or_default (reserved3 originalHhea) 0,
              reserved4 = or_default (reserved4 originalHhea) 0,
              metricDataFormat = or_default (metricDataFormat originalHhea) 0,
              numberOfHMetrics = numberOfHMetrics originalHhea\<rparr>\<rparr>, [])
      | None \<Rightarrow> (fnt, [NoHheaTable]))"

text \<open>
  \<open>modifyFont\<close> from the computation of the new metrics on, for a font that has been
  loaded and a run that is not list-only. The serializer \<open>font.toArrayBuffer()\<close> belongs
  to the font library and is a parameter; when it raises, the run fails with its error.
  The result is the font object after the edit, the warnings, and either the save error
  or the bytes written to the output file.
\<close>

definition modifyFont ::
  "(font \<Rightarrow> 'e + buffer) \<Rightarrow> options \<Rightarrow> font \<Rightarrow> font \<times> warning list \<times> ('e + buffer)" where
  "modifyFont toArrayBuffer opts fnt =
     (let a = newAscent (unitsPerEm fnt) opts;
          d = newDescent (unitsPerEm fnt) opts;
          g = newLineGap opts;
          (font1, w1) = modifyOS2 fnt a d g;
          (font2, w2) = modifyHhea font1 a d g
      in case toArrayBuffer font2 of
           Inl saveError \<Rightarrow> (font2, w1 @ w2, Inl saveError)
         | Inr outputBuffer \<Rightarrow>
             (let (patchedBuffer, w3) = patchHheaTable outputBuffer a d g
              in (font2, w1 @ w2 @ w3, Inr patchedBuffer)))"

section \<open>Sample inputs\<close>

text \<open>
  A container with one directory entry, \<open>hhea\<close>, whose 36 bytes of content start at
  offset 28.
\<close>

definition sample_sfnt :: buffer where
  "sample_sfnt = [0,1,0,0, 0,1, 0,16, 0,0, 0,0]
      @ hheaTag @ [0,0,0,0, 0,0,0,28, 0,0,0,36] @ replicate 36 0"

text \<open>The same container cut off after 36 bytes: the lineGap field lies outside.\<close>

definition truncated_sfnt :: buffer where
  "truncated_sfnt = take 36 sample_sfnt"

text \<open>
  A malformed container: the offset field of the \<open>hhea\<close> entry is 16, so that the
  patched bytes 20 to 25 cover the offset field itself (bytes 20 to 23).
\<close>

definition overlapping_sfnt :: buffer where
  "overlapping_sfnt = [0,1,0,0, 0,1, 0,16, 0,0, 0,0]
      @ hheaTag @ [0,0,0,0, 0,0,0,16, 0,0,0,0] @ replicate 12 0"

text \<open>
  A container that declares one table, \<open>head\<close>, whose content at offset 28 starts with
  the bytes of the tag \<open>hhea\<close>.
\<close>

definition undeclared_entry_sfnt :: buffer where
  "undeclared_entry_sfnt = [0,1,0,0, 0,1, 0,16, 0,0, 0,0]
      @ [0x68,0x65,0x61,0x64, 0,0,0,0, 0,0,0,28, 0,0,0,20]
      @ hheaTag @ [0,0,0,0, 0,0,0,32, 0,0,0,0, 0,0,0,0]"

text \<open>A container whose only table is \<open>OS/2\<close>.\<close>

definition no_hhea_sfnt :: buffer where
  "no_hhea_sfnt = [0,1,0,0, 0,1, 0,16, 0,0, 0,0]
      @ [0x4F,0x53,0x2F,0x32, 0,0,0,0, 0,0,0,28, 0,0,0,8] @ replicate 8 0"

definition sample_font :: font where
  "sample_font =
     \<lparr>unitsPerEm = 1000,
      os2 = Some \<lparr>sTypoAscender = 750, sTypoDescender = - 250, sTypoLineGap = 200,
                  usWinAscent = 900, usWinDescent = 300, fsSelection = 0x40\<rparr>,
      hhea = Some \<lparr>version = Some 1, ascender = 900, descender = - 300, lineGap = 0,
                   advanceWidthMax = 1200, minLeftSideBearing = - 50,
                   minRightSideBearing = - 60, xMaxExtent = 1100, caretSlopeRise = 1,
                   caretSlopeRun = 0, caretOffset = 0, reserved1 = None, reserved2 = None,
                   reserved3 = None, reserved4 = None, metricDataFormat = Some 0,
                   numberOfHMetrics = 250\<rparr>\<rparr>"

text \<open>A font whose hhea table carries the version number 0.\<close>

definition zero_version_font :: font where
  "zero_version_font =
     \<lparr>unitsPerEm = 1000,
      os2 = None,
      hhea = Some \<lparr>version = Some 0, ascender = 900, descender = - 300, lineGap = 0,
                   advanceWidthMax = 1200, minLeftSideBearing = - 50,
                   minRightSideBearing = - 60, xMaxExtent = 1100, caretSlopeRise = 1,
                   caretSlopeRun = 0, caretOffset = 0, reserved1 = Some 0, reserved2 = Some 0,
                   reserved3 = Some 0, reserved4 = Some 0, metricDataFormat = Some 0,
                   numberOfHMetrics = 250\<rparr>\<rparr>"

text \<open>Two serializers that ignore the font and return a fixed container.\<close>

definition sample_serializer :: "font \<Rightarrow> unit + buffer" where
  "sample_serializer fnt = Inr sample_sfnt"


text \<open>
  A serializer in the manner the source describes where it rewrites the hhea record and
  where it saves: it writes the OS/2 record of the font object it is given, here the three
  typographic fields as 16-bit big-endian values at bytes 68 to 73 of the OS/2 content,
  but does not save the font object's hhea record: the hhea table it writes has ascender
  900, descender -300 and line gap 0 whatever that record says. The container has the
  header, the two directory entries (OS/2 at offset 44 with 78 bytes, hhea at offset 124
  with 36 bytes) and the two tables.
\<close>

definition stale_hhea_sfnt :: "int \<Rightarrow> int \<Rightarrow> int \<Rightarrow> buffer" where
  "stale_hhea_sfnt a d g = [0,1,0,0, 0,2, 0,32, 0,1, 0,0]
      @ [0x4F,0x53,0x2F,0x32, 0,0,0,0, 0,0,0,44, 0,0,0,78]
      @ hheaTag @ [0,0,0,0, 0,0,0,124, 0,0,0,36]
      @ replicate 68 0
      @ [word_of_int (a div 256), word_of_int a, word_of_int (d div 256), word_of_int d,
         word_of_int (g div 256), word_of_int g]
      @ replicate 6 0
      @ [0,1,0,0, 0x03,0x84, 0xFE,0xD4, 0,0] @ replicate 26 0"

definition stale_hhea_serializer :: "font \<Rightarrow> unit + buffer" where
  "stale_hhea_serializer fnt =
     (case os2 fnt of
        None \<Rightarrow> Inl ()
      | Some t \<Rightarrow> Inr (stale_hhea_sfnt (sTypoAscender t) (sTypoDescender t) (sTypoLineGap t)))"

definition default_options :: options where
  "default_options = \<lparr>opt_ascent = 90, opt_descent = 22, opt_lineGap = 0\<rparr>"

definition wide_options :: options where
  "wide_options = \<lparr>opt_ascent = 4000, opt_descent = 22, opt_lineGap = 0\<rparr>"

text \<open>Whole percentages whose exact product with 1250 or 750 units ends in one half.\<close>

definition half_boundary_options :: options where
  "half_boundary_options = \<lparr>opt_ascent = 113, opt_descent = 29, opt_lineGap = 0\<rparr>"

section \<open>Lemmas about the buffer primitives, the scan and the pipeline\<close>

lemma mod65536_neg: "- 32768 \<le> v \<Longrightarrow> \<not> 0 \<le> v \<Longrightarrow> (v::int) mod 65536 = v + 65536"
proof -
  assume a: "- 32768 \<le> v" "\<not> 0 \<le> v"
  have "v mod 65536 = (v + 65536) mod 65536" by simp
  also have "\<dots> = v + 65536" using a by (intro mod_pos_pos_trivial) auto
  finally show ?thesis .
qed

lemma high_byte_mod: "((v::int) mod 4294967296) div 256 mod 256 = (v mod 65536) div 256"
proof -
  have "drop_bit 8 (take_bit 16 (take_bit 32 v)) = take_bit 8 (drop_bit 8 (take_bit 32 v))"
    by (simp add: drop_bit_take_bit)
  then have "take_bit 8 (drop_bit 8 (take_bit 32 v)) = drop_bit 8 (take_bit 16 v)"
    by simp
  then show ?thesis
    by (simp add: drop_bit_eq_div take_bit_eq_mod)
qed

lemma low_byte_mod: "(v::int) mod 256 = (v mod 65536) mod 256"
  by (simp add: mod_mod_cancel)

lemma int16_be_encode:
  assumes "int16_range v"
  shows "int16_be (word_of_int (drop_bit 8 (take_bit 32 v))) (word_of_int v) = v"
proof -
  define w where "w = v mod 65536"
  have "256 * (((v mod 4294967296) div 256) mod 256) + v mod 256
          = 256 * (w div 256) + w mod 256"
    unfolding high_byte_mod w_def by (subst low_byte_mod) simp
  then have u: "256 * (((v mod 4294967296) div 256) mod 256) + v mod 256 = w"
    by simp
  have w: "w = (if 0 \<le> v then v else v + 65536)"
    using assms mod65536_neg[of v] unfolding w_def int16_range_def
    by simp
  show ?thesis
    using assms u w unfolding int16_be_def int16_range_def Let_def
    by (simp add: uint_word_of_int drop_bit_eq_div take_bit_eq_mod)
qed

lemma writeInt16BE_ok:
  "int16_range v \<Longrightarrow> off + 1 < length buf \<Longrightarrow>
   writeInt16BE buf v (int off) =
     Inr (buf[off := word_of_int (drop_bit 8 (take_bit 32 v)), off + 1 := word_of_int v])"
  by (simp add: writeInt16BE_def int16_range_def)

lemma writeInt16BE_length:
  "writeInt16BE buf v off = Inr buf' \<Longrightarrow> length buf' = length buf"
  by (auto simp: writeInt16BE_def split: if_splits)

lemma subarray4:
  "i + 4 \<le> length b \<Longrightarrow> subarray b i (i + 4) = [b ! i, b ! (i + 1), b ! (i + 2), b ! (i + 3)]"
  unfolding subarray_def
  by (auto simp: list_eq_iff_nth_eq nth_Cons numeral_3_eq_3 split: nat.splits)

lemma scan_hhea_never_fails: "scan_hhea b i \<noteq> Inl e"
proof (induction b i rule: scan_hhea.induct)
  case (1 buffer i)
  show ?case
  proof (cases "int i < int (length buffer) - 16")
    case True
    then show ?thesis
      using 1 by (subst scan_hhea.simps) (auto simp: readUInt32BE_def)
  next
    case False
    then show ?thesis by (subst scan_hhea.simps) simp
  qed
qed

lemma readUInt32BE_nonneg: "readUInt32BE b k = Inr v \<Longrightarrow> 0 \<le> v"
  by (auto simp: readUInt32BE_def split: if_splits)

lemma scan_hhea_entry:
  "scan_hhea b i = (case hhea_entry b i of None \<Rightarrow> Inr (- 1) | Some m \<Rightarrow> readUInt32BE b (m + 8))"
proof (induction b i rule: scan_hhea.induct)
  case (1 buffer i)
  show ?case
    using 1 by (subst scan_hhea.simps, subst hhea_entry.simps) auto
qed

lemma scan_hhea_result: "scan_hhea b i = Inr v \<Longrightarrow> v = - 1 \<or> (\<exists>ofs. v = int ofs)"
proof -
  assume a: "scan_hhea b i = Inr v"
  show ?thesis
  proof (cases "hhea_entry b i")
    case None
    then show ?thesis using a by (simp add: scan_hhea_entry)
  next
    case (Some m)
    then have "0 \<le> v" using a readUInt32BE_nonneg[of b "m + 8" v] by (simp add: scan_hhea_entry)
    then have "v = int (nat v)" by simp
    then show ?thesis by blast
  qed
qed

lemma hhea_entry_Some:
  "hhea_entry b i = Some m \<Longrightarrow> i \<le> m \<and> m + 16 < length b \<and> subarray b m (m + 4) = hheaTag"
proof (induction b i rule: hhea_entry.induct)
  case (1 buffer i)
  from "1.prems" show ?case
    by (subst (asm) hhea_entry.simps) (use "1.IH" in \<open>auto split: if_splits\<close>)
qed

lemma hhea_entry_cong:
  assumes "hhea_entry b i = Some m" "length b' = length b"
    and "\<And>k. k < m + 4 \<Longrightarrow> b' ! k = b ! k"
  shows "hhea_entry b' i = Some m"
  using assms
proof (induction b i rule: hhea_entry.induct)
  case (1 buffer i)
  have le: "i \<le> m" using hhea_entry_Some[OF "1.prems"(1)] by simp
  have mb: "m + 16 < length buffer" using hhea_entry_Some[OF "1.prems"(1)] by simp
  have g: "int i < int (length buffer) - 16" using le mb by simp
  have sub: "subarray b' i (i + 4) = subarray buffer i (i + 4)"
    using le mb "1.prems"(2,3) by (simp add: subarray4)
  show ?case
  proof (cases "subarray buffer i (i + 4) = hheaTag")
    case True
    then have "m = i" using "1.prems"(1) g by (subst (asm) hhea_entry.simps) simp
    then show ?thesis using True sub g "1.prems"(2) by (subst hhea_entry.simps) simp
  next
    case False
    then have "hhea_entry buffer (i + 16) = Some m"
      using "1.prems"(1) g by (subst (asm) hhea_entry.simps) simp
    then have "hhea_entry b' (i + 16) = Some m"
      using "1.IH"[OF g False] "1.prems"(2,3) by simp
    then show ?thesis using False sub g "1.prems"(2) by (subst hhea_entry.simps) simp
  qed
qed

lemma scan_hhea_cong_prefix:
  assumes "hhea_entry b 12 = Some m" "length b' = length b"
    and "\<And>k. k < m + 12 \<Longrightarrow> b' ! k = b ! k"
  shows "scan_hhea b' 12 = scan_hhea b 12"
proof -
  have e: "hhea_entry b' 12 = Some m"
    using hhea_entry_cong[OF assms(1,2)] assms(3) by simp
  have mb: "m + 16 < length b" using hhea_entry_Some[OF assms(1)] by simp
  have "readUInt32BE b' (m + 8) = readUInt32BE b (m + 8)"
    using mb assms(2,3) by (simp add: readUInt32BE_def)
  then show ?thesis by (simp add: scan_hhea_entry e assms(1))
qed

lemma scan_hhea_cong_suffix:
  assumes "length b' = length b" "\<And>k. i \<le> k \<Longrightarrow> b' ! k = b ! k"
  shows "scan_hhea b' i = scan_hhea b i"
  using assms
proof (induction b i rule: scan_hhea.induct)
  case (1 buffer i)
  show ?case
  proof (cases "int i < int (length buffer) - 16")
    case g: True
    then have sub: "subarray b' i (i + 4) = subarray buffer i (i + 4)"
      using "1.prems" by (simp add: subarray4)
    have rd: "readUInt32BE b' (i + 8) = readUInt32BE buffer (i + 8)"
      using "1.prems" by (simp add: readUInt32BE_def)
    show ?thesis
    proof (cases "subarray buffer i (i + 4) = hheaTag")
      case True
      then show ?thesis using g sub rd "1.prems"(1)
        by (subst scan_hhea.simps, subst (2) scan_hhea.simps) simp
    next
      case False
      have "scan_hhea b' (i + 16) = scan_hhea buffer (i + 16)"
        using "1.IH"[OF g False] "1.prems" by simp
      then show ?thesis using g sub False "1.prems"(1)
        by (subst scan_hhea.simps, subst (2) scan_hhea.simps) simp
    qed
  next
    case False
    then show ?thesis using "1.prems"(1)
      by (subst scan_hhea.simps, subst (2) scan_hhea.simps) simp
  qed
qed

lemma scan_hhea_short: "length b \<le> 28 \<Longrightarrow> scan_hhea b 12 = Inr (- 1)"
  by (subst scan_hhea.simps) simp

lemma examined_in_bounds:
  "j \<in> set (examined b i) \<Longrightarrow> i \<le> j \<and> (j - i) mod 16 = 0 \<and> j + 16 < length b"
proof (induction b i rule: examined.induct)
  case (1 buffer i)
  show ?case
  proof (cases "int i < int (length buffer) - 16")
    case g: True
    show ?thesis
    proof (cases "subarray buffer i (i + 4) = hheaTag")
      case True
      then show ?thesis using g "1.prems" by (subst (asm) examined.simps) auto
    next
      case False
      from "1.prems" g False have "j = i \<or> j \<in> set (examined buffer (i + 16))"
        by (subst (asm) examined.simps) auto
      then show ?thesis
      proof
        assume "j = i" then show ?thesis using g by auto
      next
        assume "j \<in> set (examined buffer (i + 16))"
        then have h: "i + 16 \<le> j \<and> (j - (i + 16)) mod 16 = 0 \<and> j + 16 < length buffer"
          using "1.IH"[OF g False] by simp
        then have "(j - i) = (j - (i + 16)) + 16" by simp
        then have "(j - i) mod 16 = 0" using h by (simp only: mod_add_self2) 
        then show ?thesis using h by simp
      qed
    qed
  next
    case False
    then show ?thesis using "1.prems" by (subst (asm) examined.simps) simp
  qed
qed

lemma patchHheaTable_success:
  assumes "scan_hhea b 12 = Inr (int ofs)" "int16_range a" "int16_range d" "int16_range g"
    and "ofs + 9 < length b"
  shows "patchHheaTable b a d g =
     (b[ofs + 4 := word_of_int (drop_bit 8 (take_bit 32 a)), ofs + 5 := word_of_int a,
        ofs + 6 := word_of_int (drop_bit 8 (take_bit 32 d)), ofs + 7 := word_of_int d,
        ofs + 8 := word_of_int (drop_bit 8 (take_bit 32 g)), ofs + 9 := word_of_int g], [])"
proof -
  have w1: "writeInt16BE b a (int ofs + 4) =
      Inr (b[ofs + 4 := word_of_int (drop_bit 8 (take_bit 32 a)), ofs + 5 := word_of_int a])"
    using writeInt16BE_ok[of a "ofs + 4" b] assms by (simp add: add.commute)
  have w2: "writeInt16BE b1 d (int ofs + 6) =
      Inr (b1[ofs + 6 := word_of_int (drop_bit 8 (take_bit 32 d)), ofs + 7 := word_of_int d])"
    if "length b1 = length b" for b1
    using writeInt16BE_ok[of d "ofs + 6" b1] assms that by (simp add: add.commute)
  have w3: "writeInt16BE b2 g (int ofs + 8) =
      Inr (b2[ofs + 8 := word_of_int (drop_bit 8 (take_bit 32 g)), ofs + 9 := word_of_int g])"
    if "length b2 = length b" for b2
    using writeInt16BE_ok[of g "ofs + 8" b2] assms that by (simp add: add.commute)
  show ?thesis
    unfolding patchHheaTable_def patch_try_def Let_def
    by (simp add: assms(1) w1 w2 w3)
qed

lemma patchHheaTable_not_found:
  "scan_hhea b 12 = Inr (- 1) \<Longrightarrow> patchHheaTable b a d g = (b, [HheaNotFoundForPatching])"
  by (simp add: patchHheaTable_def patch_try_def)

lemma patchHheaTable_failure:
  assumes "scan_hhea b 12 = Inr (int ofs)"
    and "\<not> int16_range a \<or> \<not> int16_range d \<or> \<not> int16_range g \<or> \<not> ofs + 9 < length b"
  shows "\<exists>e. patchHheaTable b a d g = (b, [BinaryPatchingFailed e])"
proof -
  have "\<exists>e. patch_try b a d g = Inl e"
    using assms unfolding patch_try_def Let_def
    by (auto simp: writeInt16BE_def int16_range_def split: sum.splits)
  then show ?thesis by (auto simp: patchHheaTable_def)
qed

lemma patchHheaTable_out_of_range:
  assumes "\<not> int16_range a \<or> \<not> int16_range d \<or> \<not> int16_range g"
  shows "fst (patchHheaTable b a d g) = b"
    and "scan_hhea b 12 \<noteq> Inr (- 1) \<Longrightarrow> \<exists>e. snd (patchHheaTable b a d g) = [BinaryPatchingFailed e]"
proof -
  obtain v where v: "scan_hhea b 12 = Inr v"
    using scan_hhea_never_fails[of b 12] by (cases "scan_hhea b 12") auto
  show "fst (patchHheaTable b a d g) = b"
  proof (cases "v = - 1")
    case True
    then show ?thesis using v by (simp add: patchHheaTable_not_found)
  next
    case False
    then obtain ofs where "v = int ofs" using scan_hhea_result[OF v] by blast
    then obtain e where "patchHheaTable b a d g = (b, [BinaryPatchingFailed e])"
      using patchHheaTable_failure[of b ofs a d g] v assms by blast
    then show ?thesis by simp
  qed
  show "\<exists>e. snd (patchHheaTable b a d g) = [BinaryPatchingFailed e]" if "scan_hhea b 12 \<noteq> Inr (- 1)"
  proof -
    from that v have "v \<noteq> - 1" by simp
    then obtain ofs where "v = int ofs" using scan_hhea_result[OF v] by blast
    then obtain e where "patchHheaTable b a d g = (b, [BinaryPatchingFailed e])"
      using patchHheaTable_failure[of b ofs a d g] v assms by blast
    then show ?thesis by simp
  qed
qed

lemma patch_try_length:
  "patch_try b a d g = Inr (out, ws) \<Longrightarrow> length out = length b"
  unfolding patch_try_def Let_def
  by (auto split: sum.splits if_splits dest!: writeInt16BE_length)

lemma patch_try_warning:
  "patch_try b a d g = Inr (out, ws) \<Longrightarrow> ws \<noteq> [] \<Longrightarrow> out = b"
  unfolding patch_try_def Let_def
  by (auto split: sum.splits if_splits)

lemma nth_list_update_total:
  "ys[n := v] ! q = (if q = n \<and> n < length ys then v else ys ! q)"
  by (cases "n < length ys") (auto simp: nth_list_update list_update_beyond)

lemma list_update6_idem:
  "(xs[i := a, j := b, k := c, l := d, m := e, n := f])[i := a, j := b, k := c, l := d, m := e, n := f]
     = xs[i := a, j := b, k := c, l := d, m := e, n := f]"
  by (rule nth_equalityI) (simp_all add: nth_list_update_total)

lemma pow2_pos: "0 < pow2 e"
  by (simp add: pow2_def)

lemma pow2_powi: "pow2 e = 2 powi e"
  by (simp add: pow2_def power_int_def field_simps)

lemma pow2_diff: "pow2 (a - b) = pow2 a / pow2 b"
  by (simp add: pow2_powi power_int_diff)

lemma pow2_nat: "pow2 (int n) = 2 ^ n"
  by (simp add: pow2_def)

lemma floor_log2_bounds:
  assumes "0 < x"
  shows "pow2 (floor_log2 x) \<le> x \<and> x < pow2 (floor_log2 x + 1)"
proof -
  obtain p q where pq: "quotient_of x = (p, q)" by (cases "quotient_of x")
  have q: "0 < q" using quotient_of_denom_pos[OF pq] .
  have x: "x = of_int p / of_int q" using quotient_of_div[OF pq] .
  have p: "0 < p" using assms q unfolding x by (simp add: zero_less_divide_iff)
  define a where "a = bitlen p"
  define b where "b = bitlen q"
  have a1: "1 \<le> a" using p by (simp add: a_def bitlen_alt_def)
  have b1: "1 \<le> b" using q by (simp add: b_def bitlen_alt_def)
  from bitlen_bounds[OF p] have pb: "2 ^ nat (a - 1) \<le> p" "p < 2 ^ nat a" by (simp_all add: a_def)
  from bitlen_bounds[OF q] have qb: "2 ^ nat (b - 1) \<le> q" "q < 2 ^ nat b" by (simp_all add: b_def)
  have ea: "pow2 (a - 1) = of_int (2 ^ nat (a - 1))" "pow2 a = of_int (2 ^ nat a)"
    using a1 by (simp_all add: pow2_def)
  have eb: "pow2 (b - 1) = of_int (2 ^ nat (b - 1))" "pow2 b = of_int (2 ^ nat b)"
    using b1 by (simp_all add: pow2_def)
  have pr: "pow2 (a - 1) \<le> of_int p" "of_int p < pow2 a"
    unfolding ea using pb by (simp_all only: of_int_le_iff of_int_less_iff)
  have qr: "pow2 (b - 1) \<le> of_int q" "of_int q < pow2 b"
    unfolding eb using qb by (simp_all only: of_int_le_iff of_int_less_iff)
  have "x < pow2 a / pow2 (b - 1)"
    unfolding x using pr qr p pow2_pos[of "b - 1"]
    by (intro frac_less) simp_all
  then have up: "x < pow2 (a - b + 1)"
    using pow2_diff[of a "b - 1"] by (simp add: algebra_simps)
  have "pow2 (a - 1) / pow2 b \<le> x"
    unfolding x using pr qr q p
    by (intro frac_le) simp_all
  then have lo: "pow2 (a - b - 1) \<le> x"
    using pow2_diff[of "a - 1" b] by (simp add: algebra_simps)
  show ?thesis
    using up lo by (auto simp: floor_log2_def pq Let_def a_def[symmetric] b_def[symmetric] not_le less_imp_le)
qed

lemma round_ties_even_nonneg: "0 \<le> y \<Longrightarrow> 0 \<le> round_ties_even y"
  by (auto simp: round_ties_even_def Let_def)

lemma round_ties_even_near: "\<bar>of_int (round_ties_even y) - y\<bar> \<le> 1 / 2"
proof -
  have "of_int \<lfloor>y\<rfloor> \<le> y" "y < of_int \<lfloor>y\<rfloor> + 1" by linarith+
  then show ?thesis
    by (auto simp: round_ties_even_def Let_def abs_le_iff)
qed

lemma to_double_zero: "to_double 0 = 0"
  by (simp add: to_double_def)

lemma to_double_nonneg: "0 \<le> x \<Longrightarrow> 0 \<le> to_double x"
  by (auto simp: to_double_def Let_def pow2_pos less_imp_le
      intro!: mult_nonneg_nonneg round_ties_even_nonneg divide_nonneg_pos)

lemma to_double_near:
  assumes "x \<noteq> 0" and "e = max (floor_log2 \<bar>x\<bar> - 52) (- 1074)"
  shows "\<bar>to_double x - x\<bar> \<le> pow2 e / 2"
proof -
  have "to_double x - x = (of_int (round_ties_even (x / pow2 e)) - x / pow2 e) * pow2 e"
    using assms pow2_pos[of e] by (simp add: to_double_def Let_def algebra_simps)
  then have "\<bar>to_double x - x\<bar> = \<bar>of_int (round_ties_even (x / pow2 e)) - x / pow2 e\<bar> * pow2 e"
    using pow2_pos[of e] by (simp add: abs_mult)
  also have "\<dots> \<le> 1 / 2 * pow2 e"
    using round_ties_even_near[of "x / pow2 e"] pow2_pos[of e]
    by (intro mult_right_mono) simp_all
  finally show ?thesis by simp
qed

lemma to_double_relative_error:
  assumes "pow2 (- 1022) \<le> \<bar>x\<bar>"
  shows "\<bar>to_double x - x\<bar> \<le> \<bar>x\<bar> / 2 ^ 53"
proof -
  have x0: "x \<noteq> 0" "0 < \<bar>x\<bar>" using assms pow2_pos[of "- 1022"] by auto
  define E where "E = floor_log2 \<bar>x\<bar>"
  have b: "pow2 E \<le> \<bar>x\<bar>" "\<bar>x\<bar> < pow2 (E + 1)"
    using floor_log2_bounds[OF x0(2)] by (simp_all add: E_def)
  have "pow2 (- 1022) < pow2 (E + 1)" using assms b by simp
  have "- 1022 < E + 1"
  proof (rule ccontr)
    assume "\<not> - 1022 < E + 1"
    then have "E + 1 \<le> - 1022" by simp
    then have "pow2 (E + 1) \<le> pow2 (- 1022)"
      using power_int_increasing[of "E + 1" "- 1022" "2 :: rat"] by (simp add: pow2_powi)
    with \<open>pow2 (- 1022) < pow2 (E + 1)\<close> show False by simp
  qed
  then have e: "max (E - 52) (- 1074) = E - 52" by simp
  have "\<bar>to_double x - x\<bar> \<le> pow2 (E - 52) / 2"
    using to_double_near[OF x0(1), of "E - 52"] e by (simp add: E_def)
  also have "pow2 (E - 52) / 2 = pow2 E / 2 ^ 53"
    using pow2_diff[of E 52] pow2_nat[of 52] by simp
  also have "\<dots> \<le> \<bar>x\<bar> / 2 ^ 53"
    using b(1) by (simp add: divide_right_mono)
  finally show ?thesis .
qed

lemma js_round_nonneg: "0 \<le> x \<Longrightarrow> 0 \<le> js_round x"
  by (simp add: js_round_def)

lemma js_round_zero: "js_round 0 = 0"
  by (simp add: js_round_def floor_eq_iff)

lemma modifyFont_font:
  "fst (modifyFont S opts fnt) =
     fst (modifyHhea (fst (modifyOS2 fnt (newAscent (unitsPerEm fnt) opts)
                             (newDescent (unitsPerEm fnt) opts) (newLineGap opts)))
            (newAscent (unitsPerEm fnt) opts) (newDescent (unitsPerEm fnt) opts) (newLineGap opts))"
  by (simp add: modifyFont_def Let_def split: prod.splits sum.splits)

lemma modifyFont_os2:
  "os2 fnt = Some t \<Longrightarrow>
   os2 (fst (modifyFont S opts fnt)) =
     Some (t\<lparr>sTypoAscender := newAscent (unitsPerEm fnt) opts,
              sTypoDescender := newDescent (unitsPerEm fnt) opts,
              sTypoLineGap := newLineGap opts,
              usWinAscent := \<bar>newAscent (unitsPerEm fnt) opts\<bar>,
              usWinDescent := \<bar>newDescent (unitsPerEm fnt) opts\<bar>,
              fsSelection := fsSelection t OR 0x80\<rparr>)"
  by (simp add: modifyFont_font modifyOS2_def modifyHhea_def split: option.splits)

lemma modifyFont_hhea:
  "hhea fnt = Some h \<Longrightarrow>
   hhea (fst (modifyFont S opts fnt)) =
     Some \<lparr>version = or_default (version h) 0x00010000,
           ascender = newAscent (unitsPerEm fnt) opts,
           descender = newDescent (unitsPerEm fnt) opts,
           lineGap = newLineGap opts,
           advanceWidthMax = advanceWidthMax h,
           minLeftSideBearing = minLeftSideBearing h,
           minRightSideBearing = minRightSideBearing h,
           xMaxExtent = xMaxExtent h,
           caretSlopeRise = caretSlopeRise h,
           caretSlopeRun = caretSlopeRun h,
           caretOffset = caretOffset h,
           reserved1 = or_default (reserved1 h) 0,
           reserved2 = or_default (reserved2 h) 0,
           reserved3 = or_default (reserved3 h) 0,
           reserved4 = or_default (reserved4 h) 0,
           metricDataFormat = or_default (metricDataFormat h) 0,
           numberOfHMetrics = numberOfHMetrics h\<rparr>"
  by (simp add: modifyFont_font modifyOS2_def modifyHhea_def split: option.splits)

lemma modifyFont_saved:
  assumes "S (fst (modifyFont S opts fnt)) = Inr buf"
  shows "snd (snd (modifyFont S opts fnt)) =
           Inr (fst (patchHheaTable buf (newAscent (unitsPerEm fnt) opts)
                      (newDescent (unitsPerEm fnt) opts) (newLineGap opts)))"
    and "set (snd (patchHheaTable buf (newAscent (unitsPerEm fnt) opts)
                      (newDescent (unitsPerEm fnt) opts) (newLineGap opts)))
           \<subseteq> set (fst (snd (modifyFont S opts fnt)))"
  using assms unfolding modifyFont_font
  by (auto simp: modifyFont_def Let_def split: prod.splits sum.splits)

lemma bit_0x80: "bit (0x80 :: 16 word) n \<longleftrightarrow> n = 7"
proof -
  have "(0x80 :: 16 word) = 2 ^ 7" by simp
  then show ?thesis by (simp only: bit_exp_iff) auto
qed

text \<open>
  The scan, slot by slot: it stops at the first slot inside the loop bound that starts
  with the tag, and otherwise visits every slot inside the bound.
\<close>

lemma upt_Suc_map: "map f [0..<Suc n] = f 0 # map (\<lambda>j. f (Suc j)) [0..<n]"
proof -
  have "[0..<Suc n] = 0 # map Suc [0..<n]"
    by (simp add: upt_conv_Cons map_Suc_upt del: upt_Suc)
  then show ?thesis by (simp add: comp_def del: upt_Suc)
qed

lemma scan_first_match:
  assumes "i + 16 * k + 16 < length b"
    and "\<And>k'. k' < k \<Longrightarrow> subarray b (i + 16 * k') (i + 16 * k' + 4) \<noteq> hheaTag"
    and "subarray b (i + 16 * k) (i + 16 * k + 4) = hheaTag"
  shows "hhea_entry b i = Some (i + 16 * k)
    \<and> examined b i = map (\<lambda>j. i + 16 * j) [0..<Suc k]"
  using assms
proof (induction k arbitrary: i)
  case 0
  then have g: "int i < int (length b) - 16" and m: "subarray b i (i + 4) = hheaTag"
    by simp_all
  have "hhea_entry b i = Some i" using g m by (subst hhea_entry.simps) simp
  moreover have "examined b i = [i]" using g m by (subst examined.simps) simp
  ultimately show ?case by simp
next
  case (Suc k)
  have sh: "i + 16 * Suc j = i + 16 + 16 * j" for j by simp
  have g: "int i < int (length b) - 16" using Suc.prems(1) by simp
  have nm: "subarray b i (i + 4) \<noteq> hheaTag" using Suc.prems(2)[of 0] by simp
  have p1: "i + 16 + 16 * k + 16 < length b" using Suc.prems(1) by simp
  have p2: "subarray b (i + 16 + 16 * k') (i + 16 + 16 * k' + 4) \<noteq> hheaTag" if "k' < k" for k'
    using Suc.prems(2)[of "Suc k'"] that unfolding sh by simp
  have p3: "subarray b (i + 16 + 16 * k) (i + 16 + 16 * k + 4) = hheaTag"
    using Suc.prems(3) unfolding sh .
  from Suc.IH[OF p1 p2 p3]
  have ih1: "hhea_entry b (i + 16) = Some (i + 16 + 16 * k)"
    and ih2: "examined b (i + 16) = map (\<lambda>j. i + 16 + 16 * j) [0..<Suc k]" by blast+
  have "hhea_entry b i = hhea_entry b (i + 16)"
    using g nm by (subst hhea_entry.simps) simp
  then have e: "hhea_entry b i = Some (i + 16 * Suc k)"
    unfolding sh ih1 .
  have x: "examined b i = i # examined b (i + 16)"
    using g nm by (subst examined.simps) simp
  have "map (\<lambda>j. i + 16 * j) [0..<Suc (Suc k)]
          = (i + 16 * 0) # map (\<lambda>j. i + 16 * Suc j) [0..<Suc k]"
    by (rule upt_Suc_map)
  also have "\<dots> = i # map (\<lambda>j. i + 16 + 16 * j) [0..<Suc k]"
    unfolding sh by simp
  finally have "examined b i = map (\<lambda>j. i + 16 * j) [0..<Suc (Suc k)]"
    unfolding x ih2 by (rule sym)
  with e show ?case by blast
qed

lemma scan_no_match:
  assumes "\<And>k. i + 16 * k + 16 < length b \<Longrightarrow> subarray b (i + 16 * k) (i + 16 * k + 4) \<noteq> hheaTag"
  shows "hhea_entry b i = None
    \<and> examined b i = map (\<lambda>j. i + 16 * j) [0..<(length b - i - 1) div 16]"
  using assms
proof (induction b i rule: hhea_entry.induct)
  case (1 buffer i)
  show ?case
  proof (cases "int i < int (length buffer) - 16")
    case False
    then have "length buffer - i - 1 < 16" by linarith
    then have z: "(length buffer - i - 1) div 16 = 0" by (rule div_less)
    have "hhea_entry buffer i = None" using False by (subst hhea_entry.simps) simp
    moreover have "examined buffer i = []" using False by (subst examined.simps) simp
    ultimately show ?thesis unfolding z by simp
  next
    case g: True
    have sh: "i + 16 * Suc j = i + 16 + 16 * j" for j by simp
    have nm: "subarray buffer i (i + 4) \<noteq> hheaTag" using "1.prems"[of 0] g by simp
    have p: "subarray buffer (i + 16 + 16 * k) (i + 16 + 16 * k + 4) \<noteq> hheaTag"
      if "i + 16 + 16 * k + 16 < length buffer" for k
      using "1.prems"[of "Suc k"] that unfolding sh by simp
    define n where "n = (length buffer - (i + 16) - 1) div 16"
    from "1.IH"[OF g nm p]
    have ih1: "hhea_entry buffer (i + 16) = None"
      and ih2: "examined buffer (i + 16) = map (\<lambda>j. i + 16 + 16 * j) [0..<n]"
      unfolding n_def by blast+
    have n: "(length buffer - i - 1) div 16 = Suc n"
    proof -
      have "length buffer - i - 1 = (length buffer - (i + 16) - 1) + 16" using g by linarith
      then have "(length buffer - i - 1) div 16 = ((length buffer - (i + 16) - 1) + 16) div 16"
        by (rule arg_cong)
      also have "\<dots> = (length buffer - (i + 16) - 1) div 16 + 1"
        by (rule div_add_self2) simp
      finally show ?thesis unfolding n_def by simp
    qed
    have "hhea_entry buffer i = hhea_entry buffer (i + 16)"
      using g nm by (subst hhea_entry.simps) simp
    then have e: "hhea_entry buffer i = None" unfolding ih1 .
    have x: "examined buffer i = i # examined buffer (i + 16)"
      using g nm by (subst examined.simps) simp
    have "map (\<lambda>j. i + 16 * j) [0..<Suc n]
          = (i + 16 * 0) # map (\<lambda>j. i + 16 * Suc j) [0..<n]"
      by (rule upt_Suc_map)
    also have "\<dots> = i # map (\<lambda>j. i + 16 + 16 * j) [0..<n]"
      unfolding sh by simp
    finally have "examined buffer i = map (\<lambda>j. i + 16 * j) [0..<(length buffer - i - 1) div 16]"
      unfolding x ih2 n by (rule sym)
    with e show ?thesis by blast
  qed
qed

text \<open>What a successful patch leaves in the buffer.\<close>

lemma patchHheaTable_success_facts:
  assumes "scan_hhea b 12 = Inr (int ofs)"
    and "int16_range a" "int16_range d" "int16_range g"
    and "ofs + 9 < length b"
  shows "snd (patchHheaTable b a d g) = []"
    and "length (fst (patchHheaTable b a d g)) = length b"
    and "int16_be (fst (patchHheaTable b a d g) ! (ofs + 4)) (fst (patchHheaTable b a d g) ! (ofs + 5)) = a"
    and "int16_be (fst (patchHheaTable b a d g) ! (ofs + 6)) (fst (patchHheaTable b a d g) ! (ofs + 7)) = d"
    and "int16_be (fst (patchHheaTable b a d g) ! (ofs + 8)) (fst (patchHheaTable b a d g) ! (ofs + 9)) = g"
    and "\<And>k. k < ofs + 4 \<or> ofs + 9 < k \<Longrightarrow> fst (patchHheaTable b a d g) ! k = b ! k"
  using assms(5) int16_be_encode[OF assms(2)] int16_be_encode[OF assms(3)]
    int16_be_encode[OF assms(4)]
  by (auto simp: patchHheaTable_success[OF assms])

section \<open>The claims\<close>

subsection \<open>C1: metrics outside the signed 16-bit range\<close>

text \<open>
  C1 states that a computed ascent, descent or line gap outside \<open>[-32768, 32767]\<close> is
  reported as MetricOutOfRange before any table is changed. \<open>modifyFont\<close> has no such
  check. With an ascent of 4000 percent of 1000 units both tables are rewritten with the
  value 40000 and the run saves the serialized bytes; only the patcher's 16-bit write
  refuses the value, which is caught and reported as a warning.
\<close>

theorem out_of_range_metrics_counterexample:
  "newAscent (unitsPerEm sample_font) wide_options = 40000
   \<and> \<not> int16_range 40000
   \<and> os2 (fst (modifyFont sample_serializer wide_options sample_font)) \<noteq> os2 sample_font
   \<and> hhea (fst (modifyFont sample_serializer wide_options sample_font)) \<noteq> hhea sample_font
   \<and> map_option sTypoAscender (os2 (fst (modifyFont sample_serializer wide_options sample_font)))
        = Some 40000
   \<and> snd (modifyFont sample_serializer wide_options sample_font)
        = ([BinaryPatchingFailed ValueOutOfRange], Inr sample_sfnt)"
  by code_simp

text \<open>
  C1 as amended: when a computed metric is outside the signed 16-bit range, no error is
  reported by the metric computation; the OS/2 table, and the hhea table if the font
  has one, still receive the computed values, the run saves the serialized bytes
  exactly as the serializer produced them (the patcher changes nothing), and, unless
  the scan finds no hhea entry, a binary-patching-failed warning is emitted.
\<close>

theorem out_of_range_metrics_edit_proceeds:
  assumes "\<not> int16_range (newAscent (unitsPerEm fnt) opts)
           \<or> \<not> int16_range (newDescent (unitsPerEm fnt) opts)
           \<or> \<not> int16_range (newLineGap opts)"
    and "os2 fnt = Some t"
    and "toArrayBuffer (fst (modifyFont toArrayBuffer opts fnt)) = Inr buf"
  shows "map_option sTypoAscender (os2 (fst (modifyFont toArrayBuffer opts fnt)))
           = Some (newAscent (unitsPerEm fnt) opts)
    \<and> map_option sTypoDescender (os2 (fst (modifyFont toArrayBuffer opts fnt)))
           = Some (newDescent (unitsPerEm fnt) opts)
    \<and> map_option sTypoLineGap (os2 (fst (modifyFont toArrayBuffer opts fnt)))
           = Some (newLineGap opts)
    \<and> (\<forall>h. hhea fnt = Some h \<longrightarrow>
          map_option ascender (hhea (fst (modifyFont toArrayBuffer opts fnt)))
            = Some (newAscent (unitsPerEm fnt) opts)
          \<and> map_option descender (hhea (fst (modifyFont toArrayBuffer opts fnt)))
            = Some (newDescent (unitsPerEm fnt) opts)
          \<and> map_option lineGap (hhea (fst (modifyFont toArrayBuffer opts fnt)))
            = Some (newLineGap opts))
    \<and> snd (snd (modifyFont toArrayBuffer opts fnt)) = Inr buf
    \<and> (scan_hhea buf 12 = Inr (- 1)
        \<or> (\<exists>e. BinaryPatchingFailed e \<in> set (fst (snd (modifyFont toArrayBuffer opts fnt)))))"
proof -
  let ?a = "newAscent (unitsPerEm fnt) opts"
  let ?d = "newDescent (unitsPerEm fnt) opts"
  let ?g = "newLineGap opts"
  have o: "os2 (fst (modifyFont toArrayBuffer opts fnt)) =
     Some (t\<lparr>sTypoAscender := ?a, sTypoDescender := ?d, sTypoLineGap := ?g,
              usWinAscent := \<bar>?a\<bar>, usWinDescent := \<bar>?d\<bar>,
              fsSelection := fsSelection t OR 0x80\<rparr>)"
    by (rule modifyFont_os2[OF assms(2)])
  have s: "snd (snd (modifyFont toArrayBuffer opts fnt)) = Inr buf"
    using modifyFont_saved(1)[of toArrayBuffer opts fnt buf] assms(3)
      patchHheaTable_out_of_range(1)[OF assms(1)] by simp
  have w: "\<exists>e. BinaryPatchingFailed e \<in> set (fst (snd (modifyFont toArrayBuffer opts fnt)))"
    if nf: "scan_hhea buf 12 \<noteq> Inr (- 1)"
  proof -
    obtain e where "snd (patchHheaTable buf ?a ?d ?g) = [BinaryPatchingFailed e]"
      using patchHheaTable_out_of_range(2)[OF assms(1) nf] by blast
    then have "BinaryPatchingFailed e \<in> set (fst (snd (modifyFont toArrayBuffer opts fnt)))"
      using modifyFont_saved(2)[of toArrayBuffer opts fnt buf] assms(3) by auto
    then show ?thesis by blast
  qed
  have h: "map_option ascender (hhea (fst (modifyFont toArrayBuffer opts fnt))) = Some ?a
      \<and> map_option descender (hhea (fst (modifyFont toArrayBuffer opts fnt))) = Some ?d
      \<and> map_option lineGap (hhea (fst (modifyFont toArrayBuffer opts fnt))) = Some ?g"
    if "hhea fnt = Some h" for h
    by (simp add: modifyFont_hhea[OF that])
  show ?thesis using o s w h by auto
qed

theorem out_of_range_metrics_edit_proceeds_witness:
  "\<not> int16_range (newAscent (unitsPerEm sample_font) wide_options)
   \<and> os2 sample_font \<noteq> None
   \<and> sample_serializer (fst (modifyFont sample_serializer wide_options sample_font)) = Inr sample_sfnt
   \<and> map_option sTypoAscender (os2 (fst (modifyFont sample_serializer wide_options sample_font)))
        = Some 40000
   \<and> hhea sample_font \<noteq> None
   \<and> map_option ascender (hhea (fst (modifyFont sample_serializer wide_options sample_font)))
        = Some 40000
   \<and> snd (snd (modifyFont sample_serializer wide_options sample_font)) = Inr sample_sfnt
   \<and> scan_hhea sample_sfnt 12 \<noteq> Inr (- 1)
   \<and> (\<exists>e. BinaryPatchingFailed e \<in> set (fst (snd (modifyFont sample_serializer wide_options sample_font))))"
proof -
  have v: "newAscent (unitsPerEm sample_font) wide_options = 40000" by code_simp
  have r: "\<not> int16_range (newAscent (unitsPerEm sample_font) wide_options)"
    unfolding v by (simp add: int16_range_def)
  then have r': "\<not> int16_range (newAscent (unitsPerEm sample_font) wide_options)
           \<or> \<not> int16_range (newDescent (unitsPerEm sample_font) wide_options)
           \<or> \<not> int16_range (newLineGap wide_options)" by blast
  obtain t where t: "os2 sample_font = Some t" by (simp add: sample_font_def)
  obtain h where h: "hhea sample_font = Some h" by (simp add: sample_font_def)
  have b: "sample_serializer (fst (modifyFont sample_serializer wide_options sample_font)) = Inr sample_sfnt"
    by (simp add: sample_serializer_def)
  have n: "scan_hhea sample_sfnt 12 \<noteq> Inr (- 1)" by code_simp
  note T = out_of_range_metrics_edit_proceeds[of sample_font wide_options _ sample_serializer sample_sfnt, OF r' t b]
  show ?thesis using T r t h b n v by auto
qed

subsection \<open>C2: what the patcher writes\<close>

text \<open>
  C2 states that the three fields are written whenever the table is located. That fails
  for a metric outside the signed 16-bit range and for a table whose first ten bytes are
  not all inside the buffer: the write raises, and the patcher returns its input. In
  \<open>sample_sfnt\<close> the table is located at offset 28, yet after patching with an ascent of
  40000 the bytes 32 to 35 hold neither 40000 nor the descent; in \<open>truncated_sfnt\<close> the
  third write fails and the ascent 900 is not in the output either.
\<close>

theorem patch_out_of_range_counterexample:
  "scan_hhea sample_sfnt 12 = Inr 28
   \<and> patchHheaTable sample_sfnt 40000 (- 220) 0
        = (sample_sfnt, [BinaryPatchingFailed ValueOutOfRange])
   \<and> int16_be (fst (patchHheaTable sample_sfnt 40000 (- 220) 0) ! 32)
               (fst (patchHheaTable sample_sfnt 40000 (- 220) 0) ! 33) \<noteq> 40000
   \<and> int16_be (fst (patchHheaTable sample_sfnt 40000 (- 220) 0) ! 34)
               (fst (patchHheaTable sample_sfnt 40000 (- 220) 0) ! 35) \<noteq> - 220
   \<and> scan_hhea truncated_sfnt 12 = Inr 28
   \<and> patchHheaTable truncated_sfnt 900 (- 220) 0
        = (truncated_sfnt, [BinaryPatchingFailed OffsetOutOfBounds])
   \<and> int16_be (fst (patchHheaTable truncated_sfnt 900 (- 220) 0) ! 32)
               (fst (patchHheaTable truncated_sfnt 900 (- 220) 0) ! 33) \<noteq> 900"
  by code_simp

text \<open>
  C2 as amended: for every buffer in which the scan locates the hhea table at content
  offset \<open>ofs\<close>, with ascent, descent and lineGap in the signed 16-bit range and the
  bytes \<open>ofs + 4\<close> to \<open>ofs + 9\<close> inside the buffer, the patcher emits no warning, keeps the
  length, stores the three values as big-endian signed 16-bit integers at \<open>ofs + 4\<close>,
  \<open>ofs + 6\<close> and \<open>ofs + 8\<close>, and leaves every other byte as it was.
\<close>

theorem patch_writes_metrics:
  assumes "scan_hhea b 12 = Inr (int ofs)"
    and "int16_range a" "int16_range d" "int16_range g"
    and "ofs + 9 < length b"
  shows "snd (patchHheaTable b a d g) = []
    \<and> length (fst (patchHheaTable b a d g)) = length b
    \<and> int16_be (fst (patchHheaTable b a d g) ! (ofs + 4)) (fst (patchHheaTable b a d g) ! (ofs + 5)) = a
    \<and> int16_be (fst (patchHheaTable b a d g) ! (ofs + 6)) (fst (patchHheaTable b a d g) ! (ofs + 7)) = d
    \<and> int16_be (fst (patchHheaTable b a d g) ! (ofs + 8)) (fst (patchHheaTable b a d g) ! (ofs + 9)) = g
    \<and> (\<forall>k. k < ofs + 4 \<or> ofs + 9 < k \<longrightarrow> fst (patchHheaTable b a d g) ! k = b ! k)"
  using assms(5) int16_be_encode[OF assms(2)] int16_be_encode[OF assms(3)]
    int16_be_encode[OF assms(4)]
  by (auto simp: patchHheaTable_success[OF assms])

theorem patch_writes_metrics_witness:
  "scan_hhea sample_sfnt 12 = Inr 28
   \<and> int16_be (fst (patchHheaTable sample_sfnt 1843 (- 451) 0) ! 32)
               (fst (patchHheaTable sample_sfnt 1843 (- 451) 0) ! 33) = 1843
   \<and> int16_be (fst (patchHheaTable sample_sfnt 1843 (- 451) 0) ! 34)
               (fst (patchHheaTable sample_sfnt 1843 (- 451) 0) ! 35) = - 451
   \<and> fst (patchHheaTable sample_sfnt 1843 (- 451) 0) ! 12 = sample_sfnt ! 12"
proof -
  have s: "scan_hhea sample_sfnt 12 = Inr (int 28)" by code_simp
  have r: "int16_range 1843" "int16_range (- 451)" "int16_range 0"
    by (simp_all add: int16_range_def)
  have l: "28 + 9 < length sample_sfnt" by (simp add: sample_sfnt_def hheaTag_def)
  show ?thesis
    using patch_writes_metrics[OF s r l] s by simp
qed

subsection \<open>C3: the two tables agree after the edit\<close>

text \<open>
  C3 states that after a successful edit of a font with both tables the hhea fields equal
  the OS/2 typographic fields. In the font object they do, but the source says at the
  rewrite of the hhea record and again before saving that this record is not what reaches
  the file: the file's hhea bytes are the serializer's until the patcher overwrites them,
  and the patcher gives up on a value outside 16 bits. With an ascent of 4000 percent the
  run saves a file and reports only a warning; the OS/2 record holds 40000 and -220, the
  file's OS/2 bytes read -25536 and -220, and the file's hhea bytes still read 900 and
  -300.
\<close>

theorem tables_disagree_in_file_counterexample:
  "os2 sample_font \<noteq> None \<and> hhea sample_font \<noteq> None
   \<and> snd (snd (modifyFont stale_hhea_serializer wide_options sample_font))
        = Inr (stale_hhea_sfnt 40000 (- 220) 0)
   \<and> fst (snd (modifyFont stale_hhea_serializer wide_options sample_font))
        = [BinaryPatchingFailed ValueOutOfRange]
   \<and> map_option sTypoAscender (os2 (fst (modifyFont stale_hhea_serializer wide_options sample_font)))
        = Some 40000
   \<and> map_option sTypoDescender (os2 (fst (modifyFont stale_hhea_serializer wide_options sample_font)))
        = Some (- 220)
   \<and> map_option ascender (hhea (fst (modifyFont stale_hhea_serializer wide_options sample_font)))
        = Some 40000
   \<and> scan_hhea (stale_hhea_sfnt 40000 (- 220) 0) 12 = Inr 124
   \<and> int16_be (stale_hhea_sfnt 40000 (- 220) 0 ! 128) (stale_hhea_sfnt 40000 (- 220) 0 ! 129) = 900
   \<and> int16_be (stale_hhea_sfnt 40000 (- 220) 0 ! 130) (stale_hhea_sfnt 40000 (- 220) 0 ! 131) = - 300
   \<and> int16_be (stale_hhea_sfnt 40000 (- 220) 0 ! 112) (stale_hhea_sfnt 40000 (- 220) 0 ! 113) = - 25536
   \<and> int16_be (stale_hhea_sfnt 40000 (- 220) 0 ! 114) (stale_hhea_sfnt 40000 (- 220) 0 ! 115) = - 220"
  by code_simp

text \<open>
  C3 as amended: for every font that has both metrics tables, in the font object handed
  to the serializer the hhea table's ascender, descender and lineGap equal the OS/2
  table's sTypoAscender, sTypoDescender and sTypoLineGap, which are the three computed
  metrics. In the saved file: when the serializer succeeds, the three values fit 16 bits
  and the patcher locates the hhea table at offset o with the bytes o+4..o+9 inside the
  serialized output, the file has the length of the serialized output, its hhea fields
  at o+4, o+6 and o+8 read exactly these OS/2 values, every other byte is as serialized,
  and therefore wherever outside the patched bytes the serializer wrote the three OS/2
  values, the file's hhea fields equal the file's bytes there. When one of the values does
  not fit 16 bits, the file is the serialized output, unpatched.
\<close>

theorem tables_agree_after_edit:
  assumes "os2 fnt = Some t" and "hhea fnt = Some h"
  shows "\<exists>t' h'. os2 (fst (modifyFont toArrayBuffer opts fnt)) = Some t'
      \<and> hhea (fst (modifyFont toArrayBuffer opts fnt)) = Some h'
      \<and> sTypoAscender t' = newAscent (unitsPerEm fnt) opts
      \<and> sTypoDescender t' = newDescent (unitsPerEm fnt) opts
      \<and> sTypoLineGap t' = newLineGap opts
      \<and> ascender h' = sTypoAscender t'
      \<and> descender h' = sTypoDescender t'
      \<and> lineGap h' = sTypoLineGap t'
      \<and> (\<forall>buf ofs. toArrayBuffer (fst (modifyFont toArrayBuffer opts fnt)) = Inr buf
            \<and> scan_hhea buf 12 = Inr (int ofs) \<and> ofs + 9 < length buf
            \<and> int16_range (sTypoAscender t') \<and> int16_range (sTypoDescender t')
            \<and> int16_range (sTypoLineGap t')
          \<longrightarrow> (\<exists>out. snd (snd (modifyFont toArrayBuffer opts fnt)) = Inr out
                \<and> length out = length buf
                \<and> int16_be (out ! (ofs + 4)) (out ! (ofs + 5)) = sTypoAscender t'
                \<and> int16_be (out ! (ofs + 6)) (out ! (ofs + 7)) = sTypoDescender t'
                \<and> int16_be (out ! (ofs + 8)) (out ! (ofs + 9)) = sTypoLineGap t'
                \<and> (\<forall>k. k < ofs + 4 \<or> ofs + 9 < k \<longrightarrow> out ! k = buf ! k)
                \<and> (\<forall>pa pd pg.
                      (pa + 1 < ofs + 4 \<or> ofs + 9 < pa)
                      \<and> (pd + 1 < ofs + 4 \<or> ofs + 9 < pd)
                      \<and> (pg + 1 < ofs + 4 \<or> ofs + 9 < pg)
                      \<and> int16_be (buf ! pa) (buf ! (pa + 1)) = sTypoAscender t'
                      \<and> int16_be (buf ! pd) (buf ! (pd + 1)) = sTypoDescender t'
                      \<and> int16_be (buf ! pg) (buf ! (pg + 1)) = sTypoLineGap t'
                    \<longrightarrow> int16_be (out ! (ofs + 4)) (out ! (ofs + 5))
                          = int16_be (out ! pa) (out ! (pa + 1))
                        \<and> int16_be (out ! (ofs + 6)) (out ! (ofs + 7))
                          = int16_be (out ! pd) (out ! (pd + 1))
                        \<and> int16_be (out ! (ofs + 8)) (out ! (ofs + 9))
                          = int16_be (out ! pg) (out ! (pg + 1)))))
      \<and> (\<forall>buf. toArrayBuffer (fst (modifyFont toArrayBuffer opts fnt)) = Inr buf
            \<and> (\<not> int16_range (sTypoAscender t') \<or> \<not> int16_range (sTypoDescender t')
                 \<or> \<not> int16_range (sTypoLineGap t'))
          \<longrightarrow> snd (snd (modifyFont toArrayBuffer opts fnt)) = Inr buf)"
proof -
  let ?a = "newAscent (unitsPerEm fnt) opts"
  let ?d = "newDescent (unitsPerEm fnt) opts"
  let ?g = "newLineGap opts"
  let ?f = "fst (modifyFont toArrayBuffer opts fnt)"
  obtain t' where t': "os2 ?f = Some t'"
    and ta: "sTypoAscender t' = ?a" and td: "sTypoDescender t' = ?d" and tg: "sTypoLineGap t' = ?g"
    using modifyFont_os2[OF assms(1), of toArrayBuffer opts] by simp
  obtain h' where h': "hhea ?f = Some h'"
    and ha: "ascender h' = ?a" and hd: "descender h' = ?d" and hg: "lineGap h' = ?g"
    using modifyFont_hhea[OF assms(2), of toArrayBuffer opts] by simp
  have bytes: "\<exists>out. snd (snd (modifyFont toArrayBuffer opts fnt)) = Inr out
                \<and> length out = length buf
                \<and> int16_be (out ! (ofs + 4)) (out ! (ofs + 5)) = ?a
                \<and> int16_be (out ! (ofs + 6)) (out ! (ofs + 7)) = ?d
                \<and> int16_be (out ! (ofs + 8)) (out ! (ofs + 9)) = ?g
                \<and> (\<forall>k. k < ofs + 4 \<or> ofs + 9 < k \<longrightarrow> out ! k = buf ! k)
                \<and> (\<forall>pa pd pg.
                      (pa + 1 < ofs + 4 \<or> ofs + 9 < pa)
                      \<and> (pd + 1 < ofs + 4 \<or> ofs + 9 < pd)
                      \<and> (pg + 1 < ofs + 4 \<or> ofs + 9 < pg)
                      \<and> int16_be (buf ! pa) (buf ! (pa + 1)) = ?a
                      \<and> int16_be (buf ! pd) (buf ! (pd + 1)) = ?d
                      \<and> int16_be (buf ! pg) (buf ! (pg + 1)) = ?g
                    \<longrightarrow> int16_be (out ! (ofs + 4)) (out ! (ofs + 5))
                          = int16_be (out ! pa) (out ! (pa + 1))
                        \<and> int16_be (out ! (ofs + 6)) (out ! (ofs + 7))
                          = int16_be (out ! pd) (out ! (pd + 1))
                        \<and> int16_be (out ! (ofs + 8)) (out ! (ofs + 9))
                          = int16_be (out ! pg) (out ! (pg + 1)))"
    if ser: "toArrayBuffer ?f = Inr buf" and sc: "scan_hhea buf 12 = Inr (int ofs)"
      and len: "ofs + 9 < length buf"
      and ra: "int16_range ?a" and rd: "int16_range ?d" and rg: "int16_range ?g"
    for buf ofs
  proof -
    define out where "out = fst (patchHheaTable buf ?a ?d ?g)"
    have saved: "snd (snd (modifyFont toArrayBuffer opts fnt)) = Inr out"
      using modifyFont_saved(1)[of toArrayBuffer opts fnt buf] ser by (simp add: out_def)
    note F = patchHheaTable_success_facts[OF sc ra rd rg len, folded out_def]
    have frame: "out ! k = buf ! k" if "k < ofs + 4 \<or> ofs + 9 < k" for k
      using F(6)[OF that] .
    have same: "int16_be (out ! p) (out ! (p + 1)) = int16_be (buf ! p) (buf ! (p + 1))"
      if "p + 1 < ofs + 4 \<or> ofs + 9 < p" for p
    proof -
      have "out ! p = buf ! p" using that by (intro frame) auto
      moreover have "out ! (p + 1) = buf ! (p + 1)" using that by (intro frame) auto
      ultimately show ?thesis by simp
    qed
    show ?thesis
      using saved F(2,3,4,5) frame same
      by (intro exI[of _ out]) simp
  qed
  have unpatched: "snd (snd (modifyFont toArrayBuffer opts fnt)) = Inr buf"
    if ser: "toArrayBuffer ?f = Inr buf"
      and oor: "\<not> int16_range ?a \<or> \<not> int16_range ?d \<or> \<not> int16_range ?g"
    for buf
    using modifyFont_saved(1)[of toArrayBuffer opts fnt buf] ser
      patchHheaTable_out_of_range(1)[OF oor] by simp
  show ?thesis
    using t' h' bytes unpatched
    by (intro exI[of _ t'] exI[of _ h']) (simp add: ta td tg ha hd hg)
qed

theorem tables_agree_after_edit_witness:
  "os2 sample_font \<noteq> None \<and> hhea sample_font \<noteq> None
   \<and> stale_hhea_serializer (fst (modifyFont stale_hhea_serializer default_options sample_font))
        = Inr (stale_hhea_sfnt 900 (- 220) 0)
   \<and> scan_hhea (stale_hhea_sfnt 900 (- 220) 0) 12 = Inr (int 124)
   \<and> 124 + 9 < length (stale_hhea_sfnt 900 (- 220) 0)
   \<and> int16_range 900 \<and> int16_range (- 220) \<and> int16_range 0
   \<and> int16_be (stale_hhea_sfnt 900 (- 220) 0 ! 112) (stale_hhea_sfnt 900 (- 220) 0 ! 113) = 900
   \<and> int16_be (stale_hhea_sfnt 900 (- 220) 0 ! 114) (stale_hhea_sfnt 900 (- 220) 0 ! 115) = - 220
   \<and> int16_be (stale_hhea_sfnt 900 (- 220) 0 ! 116) (stale_hhea_sfnt 900 (- 220) 0 ! 117) = 0
   \<and> int16_be (stale_hhea_sfnt 900 (- 220) 0 ! 130) (stale_hhea_sfnt 900 (- 220) 0 ! 131) = - 300
   \<and> (\<exists>out. snd (snd (modifyFont stale_hhea_serializer default_options sample_font)) = Inr out
          \<and> int16_be (out ! 128) (out ! 129) = 900
          \<and> int16_be (out ! 130) (out ! 131) = - 220
          \<and> int16_be (out ! 132) (out ! 133) = 0
          \<and> int16_be (out ! 128) (out ! 129) = int16_be (out ! 112) (out ! 113)
          \<and> int16_be (out ! 130) (out ! 131) = int16_be (out ! 114) (out ! 115)
          \<and> int16_be (out ! 132) (out ! 133) = int16_be (out ! 116) (out ! 117))
   \<and> \<not> int16_range 40000
   \<and> snd (snd (modifyFont stale_hhea_serializer wide_options sample_font))
        = Inr (stale_hhea_sfnt 40000 (- 220) 0)"
proof -
  let ?f = "fst (modifyFont stale_hhea_serializer default_options sample_font)"
  let ?w = "fst (modifyFont stale_hhea_serializer wide_options sample_font)"
  obtain t where t: "os2 sample_font = Some t" by (simp add: sample_font_def)
  obtain h where h: "hhea sample_font = Some h" by (simp add: sample_font_def)
  have m: "newAscent (unitsPerEm sample_font) default_options = 900"
    "newDescent (unitsPerEm sample_font) default_options = - 220"
    "newLineGap default_options = 0"
    "newAscent (unitsPerEm sample_font) wide_options = 40000"
    by code_simp+
  have ser: "stale_hhea_serializer ?f = Inr (stale_hhea_sfnt 900 (- 220) 0)"
    "stale_hhea_serializer ?w = Inr (stale_hhea_sfnt 40000 (- 220) 0)"
    by code_simp+
  have sc: "scan_hhea (stale_hhea_sfnt 900 (- 220) 0) 12 = Inr (int 124)" by code_simp
  have len: "124 + 9 < length (stale_hhea_sfnt 900 (- 220) 0)" by code_simp
  have r: "int16_range 900" "int16_range (- 220)" "int16_range 0" "\<not> int16_range 40000"
    by (simp_all add: int16_range_def)
  have b: "int16_be (stale_hhea_sfnt 900 (- 220) 0 ! 112) (stale_hhea_sfnt 900 (- 220) 0 ! 113) = 900"
    "int16_be (stale_hhea_sfnt 900 (- 220) 0 ! 114) (stale_hhea_sfnt 900 (- 220) 0 ! 115) = - 220"
    "int16_be (stale_hhea_sfnt 900 (- 220) 0 ! 116) (stale_hhea_sfnt 900 (- 220) 0 ! 117) = 0"
    "int16_be (stale_hhea_sfnt 900 (- 220) 0 ! 130) (stale_hhea_sfnt 900 (- 220) 0 ! 131) = - 300"
    by code_simp+
  have ex: "\<exists>out. snd (snd (modifyFont stale_hhea_serializer default_options sample_font)) = Inr out
          \<and> int16_be (out ! 128) (out ! 129) = 900
          \<and> int16_be (out ! 130) (out ! 131) = - 220
          \<and> int16_be (out ! 132) (out ! 133) = 0
          \<and> int16_be (out ! 128) (out ! 129) = int16_be (out ! 112) (out ! 113)
          \<and> int16_be (out ! 130) (out ! 131) = int16_be (out ! 114) (out ! 115)
          \<and> int16_be (out ! 132) (out ! 133) = int16_be (out ! 116) (out ! 117)"
    using tables_agree_after_edit[OF t h, of stale_hhea_serializer default_options]
  proof (elim exE conjE)
    fix t' h'
    assume va: "sTypoAscender t' = newAscent (unitsPerEm sample_font) default_options"
      and vd: "sTypoDescender t' = newDescent (unitsPerEm sample_font) default_options"
      and vg: "sTypoLineGap t' = newLineGap default_options"
      and bytes: "\<forall>buf ofs. stale_hhea_serializer ?f = Inr buf
            \<and> scan_hhea buf 12 = Inr (int ofs) \<and> ofs + 9 < length buf
            \<and> int16_range (sTypoAscender t') \<and> int16_range (sTypoDescender t')
            \<and> int16_range (sTypoLineGap t')
          \<longrightarrow> (\<exists>out. snd (snd (modifyFont stale_hhea_serializer default_options sample_font)) = Inr out
                \<and> length out = length buf
                \<and> int16_be (out ! (ofs + 4)) (out ! (ofs + 5)) = sTypoAscender t'
                \<and> int16_be (out ! (ofs + 6)) (out ! (ofs + 7)) = sTypoDescender t'
                \<and> int16_be (out ! (ofs + 8)) (out ! (ofs + 9)) = sTypoLineGap t'
                \<and> (\<forall>k. k < ofs + 4 \<or> ofs + 9 < k \<longrightarrow> out ! k = buf ! k)
                \<and> (\<forall>pa pd pg.
                      (pa + 1 < ofs + 4 \<or> ofs + 9 < pa)
                      \<and> (pd + 1 < ofs + 4 \<or> ofs + 9 < pd)
                      \<and> (pg + 1 < ofs + 4 \<or> ofs + 9 < pg)
                      \<and> int16_be (buf ! pa) (buf ! (pa + 1)) = sTypoAscender t'
                      \<and> int16_be (buf ! pd) (buf ! (pd + 1)) = sTypoDescender t'
                      \<and> int16_be (buf ! pg) (buf ! (pg + 1)) = sTypoLineGap t'
                    \<longrightarrow> int16_be (out ! (ofs + 4)) (out ! (ofs + 5))
                          = int16_be (out ! pa) (out ! (pa + 1))
                        \<and> int16_be (out ! (ofs + 6)) (out ! (ofs + 7))
                          = int16_be (out ! pd) (out ! (pd + 1))
                        \<and> int16_be (out ! (ofs + 8)) (out ! (ofs + 9))
                          = int16_be (out ! pg) (out ! (pg + 1))))"
    have v: "sTypoAscender t' = 900" "sTypoDescender t' = - 220" "sTypoLineGap t' = 0"
      using va vd vg m by simp_all
    have pre: "stale_hhea_serializer ?f = Inr (stale_hhea_sfnt 900 (- 220) 0)
            \<and> scan_hhea (stale_hhea_sfnt 900 (- 220) 0) 12 = Inr (int 124)
            \<and> 124 + 9 < length (stale_hhea_sfnt 900 (- 220) 0)
            \<and> int16_range (sTypoAscender t') \<and> int16_range (sTypoDescender t')
            \<and> int16_range (sTypoLineGap t')"
      unfolding v using ser(1) sc len r by (intro conjI)
    from bytes[rule_format, of "stale_hhea_sfnt 900 (- 220) 0" 124, OF pre]
    obtain out where out: "snd (snd (modifyFont stale_hhea_serializer default_options sample_font)) = Inr out"
      and o1: "int16_be (out ! (124 + 4)) (out ! (124 + 5)) = sTypoAscender t'"
        "int16_be (out ! (124 + 6)) (out ! (124 + 7)) = sTypoDescender t'"
        "int16_be (out ! (124 + 8)) (out ! (124 + 9)) = sTypoLineGap t'"
      and cmp: "\<forall>pa pd pg.
                      (pa + 1 < 124 + 4 \<or> 124 + 9 < pa)
                      \<and> (pd + 1 < 124 + 4 \<or> 124 + 9 < pd)
                      \<and> (pg + 1 < 124 + 4 \<or> 124 + 9 < pg)
                      \<and> int16_be (stale_hhea_sfnt 900 (- 220) 0 ! pa)
                            (stale_hhea_sfnt 900 (- 220) 0 ! (pa + 1)) = sTypoAscender t'
                      \<and> int16_be (stale_hhea_sfnt 900 (- 220) 0 ! pd)
                            (stale_hhea_sfnt 900 (- 220) 0 ! (pd + 1)) = sTypoDescender t'
                      \<and> int16_be (stale_hhea_sfnt 900 (- 220) 0 ! pg)
                            (stale_hhea_sfnt 900 (- 220) 0 ! (pg + 1)) = sTypoLineGap t'
                    \<longrightarrow> int16_be (out ! (124 + 4)) (out ! (124 + 5))
                          = int16_be (out ! pa) (out ! (pa + 1))
                        \<and> int16_be (out ! (124 + 6)) (out ! (124 + 7))
                          = int16_be (out ! pd) (out ! (pd + 1))
                        \<and> int16_be (out ! (124 + 8)) (out ! (124 + 9))
                          = int16_be (out ! pg) (out ! (pg + 1))"
      by (elim exE conjE)
    have cpre: "((112::nat) + 1 < 124 + 4 \<or> 124 + 9 < (112::nat))
                      \<and> ((114::nat) + 1 < 124 + 4 \<or> 124 + 9 < (114::nat))
                      \<and> ((116::nat) + 1 < 124 + 4 \<or> 124 + 9 < (116::nat))
                      \<and> int16_be (stale_hhea_sfnt 900 (- 220) 0 ! 112)
                            (stale_hhea_sfnt 900 (- 220) 0 ! (112 + 1)) = sTypoAscender t'
                      \<and> int16_be (stale_hhea_sfnt 900 (- 220) 0 ! 114)
                            (stale_hhea_sfnt 900 (- 220) 0 ! (114 + 1)) = sTypoDescender t'
                      \<and> int16_be (stale_hhea_sfnt 900 (- 220) 0 ! 116)
                            (stale_hhea_sfnt 900 (- 220) 0 ! (116 + 1)) = sTypoLineGap t'"
      unfolding v using b by simp
    note c = cmp[rule_format, of 112 114 116, OF cpre]
    show ?thesis
      using out o1 c unfolding v by (intro exI[of _ out]) simp
  qed
  have sw: "snd (snd (modifyFont stale_hhea_serializer wide_options sample_font))
      = Inr (stale_hhea_sfnt 40000 (- 220) 0)"
    using tables_agree_after_edit[OF t h, of stale_hhea_serializer wide_options]
  proof (elim exE conjE)
    fix t' h'
    assume va: "sTypoAscender t' = newAscent (unitsPerEm sample_font) wide_options"
      and unp: "\<forall>buf. stale_hhea_serializer ?w = Inr buf
            \<and> (\<not> int16_range (sTypoAscender t') \<or> \<not> int16_range (sTypoDescender t')
                 \<or> \<not> int16_range (sTypoLineGap t'))
          \<longrightarrow> snd (snd (modifyFont stale_hhea_serializer wide_options sample_font)) = Inr buf"
    have "\<not> int16_range (sTypoAscender t')" using va m(4) r(4) by simp
    then show ?thesis using unp[rule_format, of "stale_hhea_sfnt 40000 (- 220) 0"] ser(2) by blast
  qed
  show ?thesis
    using t h ser(1) sc len r b ex sw by simp
qed

subsection \<open>C4: the directory scan\<close>

text \<open>
  C4 states that the scan examines only the declared number of directory entries and
  reports a malformed directory. The loop never reads the table count at bytes 4 and 5:
  \<open>undeclared_entry_sfnt\<close> declares one table, and the scan goes on to the slot at
  offset 28, inside that table's content, and takes the \<open>hhea\<close> bytes there for a
  directory entry.
\<close>

theorem scan_ignores_declared_count_counterexample:
  "uint (undeclared_entry_sfnt ! 4) * 256 + uint (undeclared_entry_sfnt ! 5) = 1
   \<and> examined undeclared_entry_sfnt 12 = [12, 28]
   \<and> scan_hhea undeclared_entry_sfnt 12 = Inr 32"
  by code_simp

text \<open>
  C4 as amended: for every buffer the scan examines 16-byte slots at offsets 12, 28,
  44, ... that lie, with all their 16 bytes, strictly inside the buffer, so that no read
  is out of bounds and the scan never raises. It stops at the first such slot that starts
  with the four bytes of the tag: when slot number k (at offset 12 + 16 k, with
  12 + 16 k + 16 below the length) starts with the tag and no earlier slot does, the scan
  examines exactly the slots 0 to k, in order, and returns the offset field of slot k, the
  big-endian value of its bytes 8 to 11. When no slot inside the bound starts with the
  tag, the scan examines every slot inside the bound and returns "not found", and the
  patcher returns the buffer unchanged with the not-found warning. The result does not
  depend on the declared table count (bytes 4 and 5); a buffer of at most 28 bytes gives
  "not found". There is no report of a malformed container.
\<close>

theorem scan_reads_within_buffer:
  "(\<forall>j \<in> set (examined b 12). 12 \<le> j \<and> (j - 12) mod 16 = 0 \<and> j + 16 < length b)
   \<and> (\<forall>e. scan_hhea b 12 \<noteq> Inl e)
   \<and> (\<forall>k. 12 + 16 * k + 16 < length b
          \<and> (\<forall>k' < k. subarray b (12 + 16 * k') (12 + 16 * k' + 4) \<noteq> hheaTag)
          \<and> subarray b (12 + 16 * k) (12 + 16 * k + 4) = hheaTag
        \<longrightarrow> examined b 12 = map (\<lambda>j. 12 + 16 * j) [0..<Suc k]
          \<and> scan_hhea b 12 =
              Inr (uint (b ! (12 + 16 * k + 8)) * 2 ^ 24 + uint (b ! (12 + 16 * k + 9)) * 2 ^ 16
                   + uint (b ! (12 + 16 * k + 10)) * 2 ^ 8 + uint (b ! (12 + 16 * k + 11))))
   \<and> ((\<forall>k. 12 + 16 * k + 16 < length b
            \<longrightarrow> subarray b (12 + 16 * k) (12 + 16 * k + 4) \<noteq> hheaTag)
        \<longrightarrow> examined b 12 = map (\<lambda>j. 12 + 16 * j) [0..<(length b - 13) div 16]
          \<and> scan_hhea b 12 = Inr (- 1)
          \<and> patchHheaTable b a d g = (b, [HheaNotFoundForPatching]))
   \<and> scan_hhea (b[4 := x, 5 := y]) 12 = scan_hhea b 12
   \<and> (length b \<le> 28 \<longrightarrow>
        scan_hhea b 12 = Inr (- 1) \<and> patchHheaTable b a d g = (b, [HheaNotFoundForPatching]))"
proof -
  have c1: "\<forall>j \<in> set (examined b 12). 12 \<le> j \<and> (j - 12) mod 16 = 0 \<and> j + 16 < length b"
    using examined_in_bounds[of _ b 12] by blast
  have c2: "\<forall>e. scan_hhea b 12 \<noteq> Inl e"
    using scan_hhea_never_fails by blast
  have c3: "examined b 12 = map (\<lambda>j. 12 + 16 * j) [0..<Suc k]
          \<and> scan_hhea b 12 =
              Inr (uint (b ! (12 + 16 * k + 8)) * 2 ^ 24 + uint (b ! (12 + 16 * k + 9)) * 2 ^ 16
                   + uint (b ! (12 + 16 * k + 10)) * 2 ^ 8 + uint (b ! (12 + 16 * k + 11)))"
    if len: "12 + 16 * k + 16 < length b"
      and before: "\<forall>k' < k. subarray b (12 + 16 * k') (12 + 16 * k' + 4) \<noteq> hheaTag"
      and tag: "subarray b (12 + 16 * k) (12 + 16 * k + 4) = hheaTag"
    for k
  proof -
    from scan_first_match[OF len _ tag] before
    have e: "hhea_entry b 12 = Some (12 + 16 * k)"
      and x: "examined b 12 = map (\<lambda>j. 12 + 16 * j) [0..<Suc k]" by blast+
    have rd: "readUInt32BE b (12 + 16 * k + 8) =
        Inr (uint (b ! (12 + 16 * k + 8)) * 2 ^ 24 + uint (b ! (12 + 16 * k + 9)) * 2 ^ 16
             + uint (b ! (12 + 16 * k + 10)) * 2 ^ 8 + uint (b ! (12 + 16 * k + 11)))"
    proof -
      have i: "12 + 16 * k + 8 + 1 = 12 + 16 * k + 9" "12 + 16 * k + 8 + 2 = 12 + 16 * k + 10"
        "12 + 16 * k + 8 + 3 = 12 + 16 * k + 11" by simp_all
      have "12 + 16 * k + 8 + 3 < length b" using len by linarith
      then show ?thesis unfolding readUInt32BE_def i by (simp only: if_True i)
    qed
    show ?thesis using x rd by (simp only: scan_hhea_entry e option.case)
  qed
  have c4: "examined b 12 = map (\<lambda>j. 12 + 16 * j) [0..<(length b - 13) div 16]
          \<and> scan_hhea b 12 = Inr (- 1)
          \<and> patchHheaTable b a d g = (b, [HheaNotFoundForPatching])"
    if none: "\<forall>k. 12 + 16 * k + 16 < length b
            \<longrightarrow> subarray b (12 + 16 * k) (12 + 16 * k + 4) \<noteq> hheaTag"
  proof -
    from scan_no_match[of 12 b] none
    have e: "hhea_entry b 12 = None"
      and x: "examined b 12 = map (\<lambda>j. 12 + 16 * j) [0..<(length b - 12 - 1) div 16]" by blast+
    have n: "length b - 12 - 1 = length b - 13" by linarith
    have s: "scan_hhea b 12 = Inr (- 1)" by (simp only: scan_hhea_entry e option.case)
    show ?thesis using x s patchHheaTable_not_found[OF s] unfolding n by blast
  qed
  have c5: "scan_hhea (b[4 := x, 5 := y]) 12 = scan_hhea b 12"
    by (rule scan_hhea_cong_suffix) simp_all
  have c6: "scan_hhea b 12 = Inr (- 1) \<and> patchHheaTable b a d g = (b, [HheaNotFoundForPatching])"
    if "length b \<le> 28"
    using that by (simp add: scan_hhea_short patchHheaTable_not_found)
  have c3': "\<forall>k. 12 + 16 * k + 16 < length b
          \<and> (\<forall>k' < k. subarray b (12 + 16 * k') (12 + 16 * k' + 4) \<noteq> hheaTag)
          \<and> subarray b (12 + 16 * k) (12 + 16 * k + 4) = hheaTag
        \<longrightarrow> examined b 12 = map (\<lambda>j. 12 + 16 * j) [0..<Suc k]
          \<and> scan_hhea b 12 =
              Inr (uint (b ! (12 + 16 * k + 8)) * 2 ^ 24 + uint (b ! (12 + 16 * k + 9)) * 2 ^ 16
                   + uint (b ! (12 + 16 * k + 10)) * 2 ^ 8 + uint (b ! (12 + 16 * k + 11)))"
  proof (intro allI impI, elim conjE)
    fix k
    assume "12 + 16 * k + 16 < length b"
      and "\<forall>k' < k. subarray b (12 + 16 * k') (12 + 16 * k' + 4) \<noteq> hheaTag"
      and "subarray b (12 + 16 * k) (12 + 16 * k + 4) = hheaTag"
    then show "examined b 12 = map (\<lambda>j. 12 + 16 * j) [0..<Suc k]
          \<and> scan_hhea b 12 =
              Inr (uint (b ! (12 + 16 * k + 8)) * 2 ^ 24 + uint (b ! (12 + 16 * k + 9)) * 2 ^ 16
                   + uint (b ! (12 + 16 * k + 10)) * 2 ^ 8 + uint (b ! (12 + 16 * k + 11)))"
      by (rule c3)
  qed
  have c4': "(\<forall>k. 12 + 16 * k + 16 < length b
            \<longrightarrow> subarray b (12 + 16 * k) (12 + 16 * k + 4) \<noteq> hheaTag)
        \<longrightarrow> examined b 12 = map (\<lambda>j. 12 + 16 * j) [0..<(length b - 13) div 16]
          \<and> scan_hhea b 12 = Inr (- 1)
          \<and> patchHheaTable b a d g = (b, [HheaNotFoundForPatching])"
    by (intro impI) (rule c4)
  have c6': "length b \<le> 28 \<longrightarrow>
        scan_hhea b 12 = Inr (- 1) \<and> patchHheaTable b a d g = (b, [HheaNotFoundForPatching])"
    by (intro impI) (rule c6)
  show ?thesis
    using c1 c2 c3' c4' c5 c6' by (intro conjI)
qed

theorem scan_reads_within_buffer_witness:
  "28 \<in> set (examined undeclared_entry_sfnt 12)
   \<and> 28 + 16 < length undeclared_entry_sfnt
   \<and> subarray undeclared_entry_sfnt 12 16 \<noteq> hheaTag
   \<and> subarray undeclared_entry_sfnt 28 32 = hheaTag
   \<and> examined undeclared_entry_sfnt 12 = [12, 28]
   \<and> scan_hhea undeclared_entry_sfnt 12 = Inr 32
   \<and> subarray no_hhea_sfnt 12 16 \<noteq> hheaTag \<and> length no_hhea_sfnt = 36
   \<and> examined no_hhea_sfnt 12 = [12]
   \<and> scan_hhea no_hhea_sfnt 12 = Inr (- 1)
   \<and> length (take 20 sample_sfnt) \<le> 28
   \<and> patchHheaTable (take 20 sample_sfnt) 900 (- 220) 0
        = (take 20 sample_sfnt, [HheaNotFoundForPatching])"
proof -
  have e: "28 \<in> set (examined undeclared_entry_sfnt 12)" by code_simp
  have l: "length (take 20 sample_sfnt) \<le> 28" by simp
  note T1 = scan_reads_within_buffer[of undeclared_entry_sfnt 0 0 0 0 0]
  note T2 = scan_reads_within_buffer[of "take 20 sample_sfnt" 900 "- 220" 0 0 0]
  note T3 = scan_reads_within_buffer[of no_hhea_sfnt 0 0 0 0 0]
  have a: "28 + 16 < length undeclared_entry_sfnt"
    using T1[THEN conjunct1, rule_format, OF e] by (elim conjE)
  have b: "patchHheaTable (take 20 sample_sfnt) 900 (- 220) 0
        = (take 20 sample_sfnt, [HheaNotFoundForPatching])"
    using T2[THEN conjunct2, THEN conjunct2, THEN conjunct2, THEN conjunct2, THEN conjunct2,
        rule_format, OF l] by (elim conjE)
  have u0: "subarray undeclared_entry_sfnt 12 16 \<noteq> hheaTag" by code_simp
  have u1: "subarray undeclared_entry_sfnt 28 32 = hheaTag" by code_simp
  have ul: "12 + 16 * 1 + 16 < length undeclared_entry_sfnt" by code_simp
  have ub: "\<forall>k' < (1::nat). subarray undeclared_entry_sfnt (12 + 16 * k') (12 + 16 * k' + 4) \<noteq> hheaTag"
    using u0 by simp
  have ut: "subarray undeclared_entry_sfnt (12 + 16 * 1) (12 + 16 * 1 + 4) = hheaTag"
    using u1 by simp
  have "examined undeclared_entry_sfnt 12 = map (\<lambda>j. 12 + 16 * j) [0..<Suc 1]
      \<and> scan_hhea undeclared_entry_sfnt 12 =
          Inr (uint (undeclared_entry_sfnt ! (12 + 16 * 1 + 8)) * 2 ^ 24
               + uint (undeclared_entry_sfnt ! (12 + 16 * 1 + 9)) * 2 ^ 16
               + uint (undeclared_entry_sfnt ! (12 + 16 * 1 + 10)) * 2 ^ 8
               + uint (undeclared_entry_sfnt ! (12 + 16 * 1 + 11)))"
    by (rule T1[THEN conjunct2, THEN conjunct2, THEN conjunct1, rule_format, of 1,
          OF conjI[OF ul conjI[OF ub ut]]])
  moreover have "map (\<lambda>j. 12 + 16 * j) [0..<Suc 1] = [12, 28 :: nat]" by code_simp
  moreover have "uint (undeclared_entry_sfnt ! (12 + 16 * 1 + 8)) * 2 ^ 24
               + uint (undeclared_entry_sfnt ! (12 + 16 * 1 + 9)) * 2 ^ 16
               + uint (undeclared_entry_sfnt ! (12 + 16 * 1 + 10)) * 2 ^ 8
               + uint (undeclared_entry_sfnt ! (12 + 16 * 1 + 11)) = 32" by code_simp
  ultimately have first: "examined undeclared_entry_sfnt 12 = [12, 28]"
    "scan_hhea undeclared_entry_sfnt 12 = Inr 32" by simp_all
  have n0: "subarray no_hhea_sfnt 12 16 \<noteq> hheaTag" by code_simp
  have nl: "length no_hhea_sfnt = 36" by code_simp
  have nn: "\<forall>k. 12 + 16 * k + 16 < length no_hhea_sfnt
            \<longrightarrow> subarray no_hhea_sfnt (12 + 16 * k) (12 + 16 * k + 4) \<noteq> hheaTag"
  proof (intro allI impI)
    fix k assume "12 + 16 * k + 16 < length no_hhea_sfnt"
    then have "k = 0" unfolding nl by linarith
    then show "subarray no_hhea_sfnt (12 + 16 * k) (12 + 16 * k + 4) \<noteq> hheaTag"
      using n0 by simp
  qed
  have "examined no_hhea_sfnt 12 = map (\<lambda>j. 12 + 16 * j) [0..<(length no_hhea_sfnt - 13) div 16]
      \<and> scan_hhea no_hhea_sfnt 12 = Inr (- 1)
      \<and> patchHheaTable no_hhea_sfnt 0 0 0 = (no_hhea_sfnt, [HheaNotFoundForPatching])"
    by (rule T3[THEN conjunct2, THEN conjunct2, THEN conjunct2, THEN conjunct1, THEN mp, OF nn])
  moreover have "map (\<lambda>j. 12 + 16 * j) [0..<(36 - 13) div 16] = [12 :: nat]" by code_simp
  ultimately have none: "examined no_hhea_sfnt 12 = [12]" "scan_hhea no_hhea_sfnt 12 = Inr (- 1)"
    unfolding nl by simp_all
  show ?thesis using e l a b u0 u1 first n0 nl none by (intro conjI)
qed

subsection \<open>C5: a directory without the hhea tag\<close>



subsection \<open>C6: the computed metrics\<close>

text \<open>
  C6 states that the new ascent is \<open>round (unitsPerEm * ascentPercent / 100)\<close> and the
  new descent its negated counterpart, with a value ending in one half rounded up. The
  code evaluates \<open>unitsPerEm * (ascent / 100)\<close> in double precision. For 1250 units and
  113 percent the quotient \<open>113 / 100\<close> is the double just below 1.13, the product is
  the double just below 1412.5, and \<open>Math.round\<close> gives 1412, where the formula gives
  1413; for 750 units and a descent of 29 percent the code gives -217, the formula
  -218. The two examples of the specification come out as stated.
\<close>

theorem rounding_misses_half_boundary:
  "js_div 113 100 = 1272266894732165 / 1125899906842624
   \<and> js_mul 1250 (js_div 113 100) = 6212240696934399 / 4398046511104
   \<and> newAscent 1250 half_boundary_options = 1412
   \<and> round ((1250 :: rat) * 113 / 100) = 1413
   \<and> newDescent 750 half_boundary_options = - 217
   \<and> - round ((750 :: rat) * 29 / 100) = - 218
   \<and> newAscent 1000 \<lparr>opt_ascent = 90, opt_descent = 22, opt_lineGap = 0\<rparr> = 900
   \<and> newDescent 1000 \<lparr>opt_ascent = 90, opt_descent = 22, opt_lineGap = 0\<rparr> = - 220
   \<and> newLineGap \<lparr>opt_ascent = 90, opt_descent = 22, opt_lineGap = 0\<rparr> = 0
   \<and> newAscent 2048 \<lparr>opt_ascent = 80, opt_descent = 20, opt_lineGap = 10\<rparr> = 1638
   \<and> newDescent 2048 \<lparr>opt_ascent = 80, opt_descent = 20, opt_lineGap = 10\<rparr> = - 410
   \<and> newLineGap \<lparr>opt_ascent = 80, opt_descent = 20, opt_lineGap = 10\<rparr> = 10"
  by code_simp

text \<open>
  What does hold of the computed metrics for every input: the sign of the descent.
\<close>

lemma descent_sign_contract:
  assumes "0 < upm"
  shows "0 \<le> opt_descent opts \<Longrightarrow> newDescent upm opts \<le> 0"
    and "opt_descent opts = 0 \<Longrightarrow> newDescent upm opts = 0"
proof -
  show "newDescent upm opts \<le> 0" if "0 \<le> opt_descent opts"
  proof -
    have "0 \<le> js_div (opt_descent opts) 100"
      unfolding js_div_def using that by (intro to_double_nonneg) simp
    then have "0 \<le> js_mul (of_int upm) (js_div (opt_descent opts) 100)"
      unfolding js_mul_def using assms by (intro to_double_nonneg mult_nonneg_nonneg) simp_all
    then show ?thesis
      unfolding newDescent_def using js_round_nonneg by simp
  qed
  show "newDescent upm opts = 0" if "opt_descent opts = 0"
    by (simp add: newDescent_def js_div_def js_mul_def that to_double_zero js_round_zero)
qed

subsection \<open>C7: the replaced hhea table\<close>

text \<open>
  C7 states that every pass-through field of the new hhea table, the version among
  them, equals the original value. The version is read as
  \<open>originalHhea.version || 0x00010000\<close>: a table whose version is 0 gets the version
  65536. The reserved fields are read through \<open>|| 0\<close>: fields that the original table
  does not have are 0 in the new one, as in \<open>sample_font\<close>.
\<close>

theorem hhea_version_default_counterexample:
  "map_option version (hhea zero_version_font) = Some (Some 0)
   \<and> map_option version (hhea (fst (modifyFont sample_serializer default_options zero_version_font)))
        = Some (Some 65536)
   \<and> map_option reserved1 (hhea sample_font) = Some None
   \<and> map_option reserved1 (hhea (fst (modifyFont sample_serializer default_options sample_font)))
        = Some (Some 0)"
  by code_simp

text \<open>
  C7 as amended: for every font whose hhea table is present, the edit replaces the table
  by a record whose ascender, descender and lineGap are the computed metrics and whose
  advanceWidthMax, minLeftSideBearing, minRightSideBearing, xMaxExtent, caretSlopeRise,
  caretSlopeRun, caretOffset and numberOfHMetrics are the original values; the version
  is the original one unless that is missing or 0, when it is 0x00010000; each reserved
  field and metricDataFormat is the original value unless that is missing, when it is 0.
\<close>

theorem hhea_replaced_keeping_passthrough:
  assumes "hhea fnt = Some h"
  shows "\<exists>h'. hhea (fst (modifyFont toArrayBuffer opts fnt)) = Some h'
    \<and> ascender h' = newAscent (unitsPerEm fnt) opts
    \<and> descender h' = newDescent (unitsPerEm fnt) opts
    \<and> lineGap h' = newLineGap opts
    \<and> advanceWidthMax h' = advanceWidthMax h
    \<and> minLeftSideBearing h' = minLeftSideBearing h
    \<and> minRightSideBearing h' = minRightSideBearing h
    \<and> xMaxExtent h' = xMaxExtent h
    \<and> caretSlopeRise h' = caretSlopeRise h
    \<and> caretSlopeRun h' = caretSlopeRun h
    \<and> caretOffset h' = caretOffset h
    \<and> numberOfHMetrics h' = numberOfHMetrics h
    \<and> version h' = (if version h = None \<or> version h = Some 0 then Some 0x00010000 else version h)
    \<and> reserved1 h' = (if reserved1 h = None then Some 0 else reserved1 h)
    \<and> reserved2 h' = (if reserved2 h = None then Some 0 else reserved2 h)
    \<and> reserved3 h' = (if reserved3 h = None then Some 0 else reserved3 h)
    \<and> reserved4 h' = (if reserved4 h = None then Some 0 else reserved4 h)
    \<and> metricDataFormat h' = (if metricDataFormat h = None then Some 0 else metricDataFormat h)"
proof -
  have v: "or_default x 0x00010000 = (if x = None \<or> x = Some 0 then Some 0x00010000 else x)" for x
    by (auto simp: or_default_def split: option.splits)
  have z: "or_default x 0 = (if x = None then Some 0 else x)" for x
    by (auto simp: or_default_def split: option.splits)
  show ?thesis
    by (simp add: modifyFont_hhea[OF assms] v z)
qed

theorem hhea_replaced_keeping_passthrough_witness:
  "hhea sample_font \<noteq> None
   \<and> map_option ascender (hhea (fst (modifyFont sample_serializer default_options sample_font))) = Some 900
   \<and> map_option advanceWidthMax (hhea (fst (modifyFont sample_serializer default_options sample_font)))
        = map_option advanceWidthMax (hhea sample_font)
   \<and> map_option version (hhea (fst (modifyFont sample_serializer default_options sample_font)))
        = map_option version (hhea sample_font)
   \<and> map_option numberOfHMetrics (hhea (fst (modifyFont sample_serializer default_options sample_font)))
        = Some 250"
proof -
  obtain h where h: "hhea sample_font = Some h" by (simp add: sample_font_def)
  have hv: "version h = Some 1" "numberOfHMetrics h = 250"
    using h by (simp_all add: sample_font_def) auto
  have v: "newAscent (unitsPerEm sample_font) default_options = 900" by code_simp
  from hhea_replaced_keeping_passthrough[OF h, of sample_serializer default_options]
  obtain h' where "hhea (fst (modifyFont sample_serializer default_options sample_font)) = Some h'"
    "ascender h' = newAscent (unitsPerEm sample_font) default_options"
    "advanceWidthMax h' = advanceWidthMax h"
    "version h' = (if version h = None \<or> version h = Some 0 then Some 0x00010000 else version h)"
    "numberOfHMetrics h' = numberOfHMetrics h"
    by blast
  then show ?thesis using h hv v by simp
qed

subsection \<open>C8: patching twice\<close>

text \<open>
  C8 states that patching twice with the same accepted values gives the bytes of
  patching once, for every buffer. In \<open>overlapping_sfnt\<close> the table offset points into
  the directory entry itself: the first patch overwrites the entry's offset field with
  the ascent and the descent, the second patch reads the new offset 30 and writes the
  three values at bytes 34 to 39. Both patches succeed without a warning and their
  outputs differ.
\<close>

theorem patch_twice_differs_counterexample:
  "int16_range 0 \<and> int16_range 30 \<and> int16_range 7
   \<and> snd (patchHheaTable overlapping_sfnt 0 30 7) = []
   \<and> snd (patchHheaTable (fst (patchHheaTable overlapping_sfnt 0 30 7)) 0 30 7) = []
   \<and> fst (patchHheaTable (fst (patchHheaTable overlapping_sfnt 0 30 7)) 0 30 7)
        \<noteq> fst (patchHheaTable overlapping_sfnt 0 30 7)"
  by code_simp

text \<open>
  C8 as amended: for every buffer in which the scan finds no hhea entry, or finds it at
  directory position \<open>m\<close> with a table offset \<open>ofs \<ge> m + 8\<close> (the patched bytes then
  start behind the entry's tag and offset field, as in every container whose tables
  follow the directory), and for all metric values, patching the patched buffer again
  with the same values returns the same bytes and the same warnings.
\<close>

theorem patch_twice_same:
  assumes "hhea_entry b 12 = None
     \<or> (\<exists>m ofs. hhea_entry b 12 = Some m \<and> scan_hhea b 12 = Inr (int ofs) \<and> m + 8 \<le> ofs)"
  shows "patchHheaTable (fst (patchHheaTable b a d g)) a d g = patchHheaTable b a d g"
  using assms
proof
  assume "hhea_entry b 12 = None"
  then have "scan_hhea b 12 = Inr (- 1)" by (simp add: scan_hhea_entry)
  then show ?thesis by (simp add: patchHheaTable_not_found)
next
  assume "\<exists>m ofs. hhea_entry b 12 = Some m \<and> scan_hhea b 12 = Inr (int ofs) \<and> m + 8 \<le> ofs"
  then obtain m ofs where m: "hhea_entry b 12 = Some m"
    and s: "scan_hhea b 12 = Inr (int ofs)" and le: "m + 8 \<le> ofs" by blast
  show ?thesis
  proof (cases "int16_range a \<and> int16_range d \<and> int16_range g \<and> ofs + 9 < length b")
    case False
    then obtain e where "patchHheaTable b a d g = (b, [BinaryPatchingFailed e])"
      using patchHheaTable_failure[OF s, of a d g] by blast
    then show ?thesis by simp
  next
    case True
    define out where "out = b[ofs + 4 := word_of_int (drop_bit 8 (take_bit 32 a)), ofs + 5 := word_of_int a,
        ofs + 6 := word_of_int (drop_bit 8 (take_bit 32 d)), ofs + 7 := word_of_int d,
        ofs + 8 := word_of_int (drop_bit 8 (take_bit 32 g)), ofs + 9 := word_of_int g]"
    have p1: "patchHheaTable b a d g = (out, [])"
      using patchHheaTable_success[OF s] True by (simp add: out_def)
    have len: "length out = length b" by (simp add: out_def)
    have same: "out ! k = b ! k" if "k < m + 12" for k
      using that le by (simp add: out_def)
    have s': "scan_hhea out 12 = Inr (int ofs)"
      using scan_hhea_cong_prefix[OF m len same] s by simp
    have "patchHheaTable out a d g = (out, [])"
      using patchHheaTable_success[OF s', of a d g] True len
      by (simp add: out_def list_update6_idem)
    then show ?thesis by (simp add: p1)
  qed
qed

theorem patch_twice_same_witness:
  "hhea_entry sample_sfnt 12 = Some 12 \<and> scan_hhea sample_sfnt 12 = Inr (int 28) \<and> (12::nat) + 8 \<le> 28
   \<and> patchHheaTable (fst (patchHheaTable sample_sfnt 900 (- 220) 0)) 900 (- 220) 0
        = patchHheaTable sample_sfnt 900 (- 220) 0
   \<and> fst (patchHheaTable sample_sfnt 900 (- 220) 0) \<noteq> sample_sfnt"
proof -
  have h: "hhea_entry sample_sfnt 12 = Some 12 \<and> scan_hhea sample_sfnt 12 = Inr (int 28) \<and> (12::nat) + 8 \<le> 28"
    by code_simp
  then have "hhea_entry sample_sfnt 12 = None
     \<or> (\<exists>m ofs. hhea_entry sample_sfnt 12 = Some m \<and> scan_hhea sample_sfnt 12 = Inr (int ofs) \<and> m + 8 \<le> ofs)"
    by blast
  from patch_twice_same[OF this, of 900 "- 220" 0]
  have "patchHheaTable (fst (patchHheaTable sample_sfnt 900 (- 220) 0)) 900 (- 220) 0
        = patchHheaTable sample_sfnt 900 (- 220) 0" .
  moreover have "fst (patchHheaTable sample_sfnt 900 (- 220) 0) \<noteq> sample_sfnt" by code_simp
  ultimately show ?thesis using h by blast
qed

subsection \<open>C9: the patcher never fails\<close>

text \<open>
  C9: \<open>patchHheaTable\<close> returns a buffer of the length of its input for every buffer
  and all metric values; whenever the body of its \<open>try\<close> block raises, it returns the
  original buffer with a binary-patching-failed warning, and this is what happens when a
  metric is outside the signed 16-bit range or the located offset leaves less than ten
  bytes in the buffer; whenever a warning is emitted, the returned bytes are the input.
\<close>

theorem patchHheaTable_total:
  "length (fst (patchHheaTable b a d g)) = length b
   \<and> (\<forall>e. patch_try b a d g = Inl e \<longrightarrow> patchHheaTable b a d g = (b, [BinaryPatchingFailed e]))
   \<and> (\<forall>ofs. scan_hhea b 12 = Inr (int ofs)
          \<and> (\<not> int16_range a \<or> \<not> int16_range d \<or> \<not> int16_range g \<or> \<not> ofs + 9 < length b)
        \<longrightarrow> (\<exists>e. patchHheaTable b a d g = (b, [BinaryPatchingFailed e])))
   \<and> (snd (patchHheaTable b a d g) \<noteq> [] \<longrightarrow> fst (patchHheaTable b a d g) = b)"
proof (intro conjI allI impI)
  show "length (fst (patchHheaTable b a d g)) = length b"
    by (cases "patch_try b a d g") (auto simp: patchHheaTable_def dest: patch_try_length)
next
  fix e assume "patch_try b a d g = Inl e"
  then show "patchHheaTable b a d g = (b, [BinaryPatchingFailed e])"
    by (simp add: patchHheaTable_def)
next
  fix ofs
  assume "scan_hhea b 12 = Inr (int ofs)
          \<and> (\<not> int16_range a \<or> \<not> int16_range d \<or> \<not> int16_range g \<or> \<not> ofs + 9 < length b)"
  then show "\<exists>e. patchHheaTable b a d g = (b, [BinaryPatchingFailed e])"
    using patchHheaTable_failure[of b ofs a d g] by blast
next
  assume "snd (patchHheaTable b a d g) \<noteq> []"
  then show "fst (patchHheaTable b a d g) = b"
    by (cases "patch_try b a d g") (auto simp: patchHheaTable_def dest: patch_try_warning)
qed

theorem patchHheaTable_total_witness:
  "scan_hhea sample_sfnt 12 = Inr (int 28) \<and> \<not> int16_range 40000
   \<and> patch_try sample_sfnt 40000 0 0 = Inl ValueOutOfRange
   \<and> patchHheaTable sample_sfnt 40000 0 0 = (sample_sfnt, [BinaryPatchingFailed ValueOutOfRange])
   \<and> scan_hhea (take 36 sample_sfnt) 12 = Inr (int 28) \<and> \<not> 28 + 9 < length (take 36 sample_sfnt)
   \<and> (\<exists>e. patchHheaTable (take 36 sample_sfnt) 900 (- 220) 0
          = (take 36 sample_sfnt, [BinaryPatchingFailed e]))
   \<and> length (fst (patchHheaTable [] 900 (- 220) 0)) = length ([] :: buffer)"
proof -
  have t: "patch_try sample_sfnt 40000 0 0 = Inl ValueOutOfRange" by code_simp
  have s: "scan_hhea sample_sfnt 12 = Inr (int 28)" by code_simp
  have r: "\<not> int16_range 40000" by (simp add: int16_range_def)
  have s': "scan_hhea (take 36 sample_sfnt) 12 = Inr (int 28)" by code_simp
  have l: "\<not> 28 + 9 < length (take 36 sample_sfnt)" by simp
  note T1 = patchHheaTable_total[of sample_sfnt 40000 0 0]
  note T2 = patchHheaTable_total[of "take 36 sample_sfnt" 900 "- 220" 0]
  note T3 = patchHheaTable_total[of "[]" 900 "- 220" 0]
  have a: "patchHheaTable sample_sfnt 40000 0 0 = (sample_sfnt, [BinaryPatchingFailed ValueOutOfRange])"
    using T1 t by blast
  have b: "\<exists>e. patchHheaTable (take 36 sample_sfnt) 900 (- 220) 0
          = (take 36 sample_sfnt, [BinaryPatchingFailed e])"
    using T2 s' l by blast
  have c: "length (fst (patchHheaTable [] 900 (- 220) 0)) = length ([] :: buffer)"
    using T3 by blast
  show ?thesis using t s r s' l a b c by blast
qed

subsection \<open>C10: the selection flags\<close>

text \<open>
  C10: for every initial value of fsSelection the new value is the old one or-ed with
  0x80: bit 7 is set, and every other bit is as before.
\<close>

theorem fsSelection_only_sets_bit7:
  assumes "os2 fnt = Some t"
  shows "\<exists>t'. os2 (fst (modifyFont toArrayBuffer opts fnt)) = Some t'
    \<and> fsSelection t' = fsSelection t OR 0x80
    \<and> (\<forall>n. bit (fsSelection t') n \<longleftrightarrow> bit (fsSelection t) n \<or> n = 7)"
proof -
  let ?t' = "t\<lparr>sTypoAscender := newAscent (unitsPerEm fnt) opts,
              sTypoDescender := newDescent (unitsPerEm fnt) opts,
              sTypoLineGap := newLineGap opts,
              usWinAscent := \<bar>newAscent (unitsPerEm fnt) opts\<bar>,
              usWinDescent := \<bar>newDescent (unitsPerEm fnt) opts\<bar>,
              fsSelection := fsSelection t OR 0x80\<rparr>"
  have o: "os2 (fst (modifyFont toArrayBuffer opts fnt)) = Some ?t'"
    by (rule modifyFont_os2[OF assms])
  have f: "fsSelection ?t' = fsSelection t OR 0x80" by simp
  have b: "bit (fsSelection ?t') n \<longleftrightarrow> bit (fsSelection t) n \<or> n = 7" for n
    unfolding f by (simp only: bit_or_iff bit_0x80)
  show ?thesis using o f b by blast
qed

theorem fsSelection_only_sets_bit7_witness:
  "map_option fsSelection (os2 sample_font) = Some 0x40
   \<and> map_option fsSelection (os2 (fst (modifyFont sample_serializer default_options sample_font)))
        = Some 0xC0"
proof -
  obtain t where t: "os2 sample_font = Some t" by (simp add: sample_font_def)
  have f: "fsSelection t = 0x40" using t by (auto simp: sample_font_def)
  from fsSelection_only_sets_bit7[OF t, of sample_serializer default_options]
  obtain t' where "os2 (fst (modifyFont sample_serializer default_options sample_font)) = Some t'"
    "fsSelection t' = fsSelection t OR 0x80" by blast
  then show ?thesis using t f by simp
qed

end
